theory Spec2Isabelle
  imports Main "HOL-Library.Sublist" "HOL-Library.Word"
begin

section \<open>JavaScript values\<close>

text \<open>
  A JavaScript string is a sequence of 16-bit code units. \<open>js\<close> gives the string of an
  ASCII literal of the code.
\<close>

type_synonym jsstring = "16 word list"

definition js :: "string \<Rightarrow> jsstring" where
  "js s = map (\<lambda>ch. of_nat (of_char ch)) s"

text \<open>
  The values a field of the settings object, or the joke, can be: undefined, null, a
  boolean, a number or a string; objects and arrays are left out. Of a number the code
  asks two things only, whether it is truthy and what string it prints as, and a number
  is held accordingly. \<open>JInt neg m\<close> is an integer of magnitude \<open>m\<close> below 2 to the 53,
  negative when \<open>neg\<close> holds (\<open>JInt True 0\<close> is the negative zero): JavaScript prints these
  in plain decimal digits. \<open>JNumber t\<close> is any other number (a fraction, a magnitude of 2
  to the 53 or more, an infinity, NaN), \<open>t\<close> being the string JavaScript prints for it,
  such as 0.5, 1e+21 or NaN.
\<close>

datatype jsval = JUndefined | JNull | JBool bool | JInt bool "53 word" | JNumber jsstring
  | JStr jsstring

datatype exn = Error jsstring | TypeError jsstring | URIError jsstring

text \<open>Truthiness, as \<^verbatim>\<open>!x\<close>, \<^verbatim>\<open>x && y\<close> and \<^verbatim>\<open>x || y\<close> test it.\<close>

fun truthy :: "jsval \<Rightarrow> bool" where
  "truthy JUndefined = False"
| "truthy JNull = False"
| "truthy (JBool b) = b"
| "truthy (JInt neg m) = (m \<noteq> 0)"
| "truthy (JNumber t) = (t \<noteq> js ''NaN'')"
| "truthy (JStr s) = (s \<noteq> [])"

text \<open>\<^verbatim>\<open>x || y\<close>: the first operand when it is truthy, the second otherwise.\<close>

definition js_or :: "jsval \<Rightarrow> jsval \<Rightarrow> jsval" where
  "js_or x y = (if truthy x then x else y)"

definition digit_char :: "nat \<Rightarrow> char" where
  "digit_char d = char_of (48 + d)"

fun nat_digits :: "nat \<Rightarrow> string" where
  "nat_digits n = (if n < 10 then [digit_char n] else nat_digits (n div 10) @ [digit_char (n mod 10)])"

declare nat_digits.simps [simp del]

text \<open>
  The string of a value. An integer below 2 to the 53 is printed in decimal digits, a
  minus sign first when it is negative and not zero.
\<close>

fun ToString :: "jsval \<Rightarrow> jsstring" where
  "ToString JUndefined = js ''undefined''"
| "ToString JNull = js ''null''"
| "ToString (JBool b) = (if b then js ''true'' else js ''false'')"
| "ToString (JInt neg m) = js ((if neg \<and> m \<noteq> 0 then ''-'' else []) @ nat_digits (unat m))"
| "ToString (JNumber t) = t"
| "ToString (JStr s) = s"

section \<open>The string operations the code calls\<close>

text \<open>
  \<^verbatim>\<open>toLowerCase\<close>: the letters A to Z become a to z. Every other code unit is kept; the
  code compares the result with ASCII literals only (auto, mp3, wav, aac, ogg, caf),
  none of which holds a letter that a character beyond ASCII lowers to.
\<close>

definition lower_unit :: "16 word \<Rightarrow> 16 word" where
  "lower_unit u = (if 65 \<le> unat u \<and> unat u \<le> 90 then of_nat (unat u + 32) else u)"

definition String_toLowerCase :: "jsstring \<Rightarrow> jsstring" where
  "String_toLowerCase s = map lower_unit s"

text \<open>
  The method call \<^verbatim>\<open>v.toLowerCase()\<close> on a value: a string has the method; on a
  number or a boolean the property is undefined and the call raises a TypeError, as
  reading a property of undefined or null does.
\<close>

fun toLowerCase :: "jsval \<Rightarrow> exn + jsstring" where
  "toLowerCase (JStr s) = Inr (String_toLowerCase s)"
| "toLowerCase v = Inl (TypeError (js ''toLowerCase is not a function''))"

text \<open>\<^verbatim>\<open>s.indexOf(pat)\<close>: the position of the first occurrence, -1 when there is none.\<close>

fun String_indexOf :: "jsstring \<Rightarrow> jsstring \<Rightarrow> int" where
  "String_indexOf [] pat = (if pat = [] then 0 else - 1)"
| "String_indexOf (x # xs) pat =
     (if prefix pat (x # xs) then 0
      else (let i = String_indexOf xs pat in if i < 0 then - 1 else i + 1))"

text \<open>\<^verbatim>\<open>s.replace(pat, rep)\<close> with a string pattern: the first occurrence only.\<close>

fun String_replace :: "jsstring \<Rightarrow> jsstring \<Rightarrow> jsstring \<Rightarrow> jsstring" where
  "String_replace [] pat rep = (if pat = [] then rep else [])"
| "String_replace (x # xs) pat rep =
     (if prefix pat (x # xs) then rep @ drop (length pat) (x # xs)
      else x # String_replace xs pat rep)"

text \<open>
  \<^verbatim>\<open>encodeURIComponent\<close>. The string is read code point by code point. A letter, a digit
  or one of the marks \<^verbatim>\<open>- _ . ! ~ * ' ( )\<close> is kept. Any other code point is written as
  the octets of its UTF-8 encoding, each as a percent sign and two upper-case hexadecimal
  digits. A surrogate that is not half of a pair (a high one followed by a low one) has
  no code point, and the function throws a URIError. The result is an ASCII text, held as
  a \<open>string\<close>.
\<close>

definition unreserved :: "16 word \<Rightarrow> bool" where
  "unreserved u =
     (let n = unat u in
        (48 \<le> n \<and> n \<le> 57) \<or> (65 \<le> n \<and> n \<le> 90) \<or> (97 \<le> n \<and> n \<le> 122)
        \<or> n = 45 \<or> n = 95 \<or> n = 46 \<or> n = 33 \<or> n = 126 \<or> n = 42 \<or> n = 39 \<or> n = 40 \<or> n = 41)"

definition ascii_char :: "16 word \<Rightarrow> char" where
  "ascii_char u = char_of (unat u)"

definition high_surrogate :: "16 word \<Rightarrow> bool" where
  "high_surrogate u = (55296 \<le> unat u \<and> unat u \<le> 56319)"

definition low_surrogate :: "16 word \<Rightarrow> bool" where
  "low_surrogate u = (56320 \<le> unat u \<and> unat u \<le> 57343)"

definition code_point :: "16 word \<Rightarrow> 16 word \<Rightarrow> nat" where
  "code_point hi lo = 65536 + (unat hi - 55296) * 1024 + (unat lo - 56320)"

definition utf8_octets :: "nat \<Rightarrow> char list" where
  "utf8_octets cp =
     (if cp < 128 then [char_of cp]
      else if cp < 2048 then [char_of (192 + cp div 64), char_of (128 + cp mod 64)]
      else if cp < 65536 then
        [char_of (224 + cp div 4096), char_of (128 + cp div 64 mod 64), char_of (128 + cp mod 64)]
      else
        [char_of (240 + cp div 262144), char_of (128 + cp div 4096 mod 64),
         char_of (128 + cp div 64 mod 64), char_of (128 + cp mod 64)])"

definition hex_digit :: "nat \<Rightarrow> char" where
  "hex_digit d = (if d < 10 then char_of (48 + d) else char_of (55 + d))"

definition percent_byte :: "char \<Rightarrow> string" where
  "percent_byte ch =
     (let n = (of_char ch :: nat) in [CHR ''%'', hex_digit (n div 16), hex_digit (n mod 16)])"

definition escape :: "nat \<Rightarrow> string" where
  "escape cp = concat (map percent_byte (utf8_octets cp))"

definition prepend :: "string \<Rightarrow> exn + string \<Rightarrow> exn + string" where
  "prepend a res = (case res of Inl e \<Rightarrow> Inl e | Inr v \<Rightarrow> Inr (a @ v))"

fun encodeURIComponent :: "jsstring \<Rightarrow> exn + string" where
  "encodeURIComponent [] = Inr []"
| "encodeURIComponent [u] =
     (if unreserved u then Inr [ascii_char u]
      else if low_surrogate u \<or> high_surrogate u then Inl (URIError (js ''URI malformed''))
      else Inr (escape (unat u)))"
| "encodeURIComponent (u # v # rest) =
     (if unreserved u then prepend [ascii_char u] (encodeURIComponent (v # rest))
      else if low_surrogate u then Inl (URIError (js ''URI malformed''))
      else if high_surrogate u then
        (if low_surrogate v then prepend (escape (code_point u v)) (encodeURIComponent rest)
         else Inl (URIError (js ''URI malformed'')))
      else prepend (escape (unat u)) (encodeURIComponent (v # rest)))"

section \<open>The browser and the page\<close>

text \<open>
  What the code asks of the browser: the answer of \<^verbatim>\<open>new Audio().canPlayType(mime)\<close>
  for each MIME type, whether \<^verbatim>\<open>new XMLHttpRequest()\<close> and
  \<^verbatim>\<open>new ActiveXObject(id)\<close> return an object or throw, and whether the promise of
  \<^verbatim>\<open>audioElement.play()\<close> is rejected (with which message).
\<close>

record browser =
  canPlayType :: "string \<Rightarrow> jsstring"
  new_XMLHttpRequest :: bool
  new_ActiveXObject :: "string \<Rightarrow> bool"
  play_rejection :: "jsstring option"

record audio_element =
  audio_src :: jsstring
  plays :: nat

record http_request =
  transport :: string
  req_method :: string
  req_url :: string
  req_async :: bool
  req_headers :: "(string \<times> string) list"
  req_body :: string

text \<open>
  The page as the code sees and changes it: the button's \<^verbatim>\<open>disabled\<close> property, the
  text content of the element with id jokeText (None when the page has no such
  element), the element with id audio (None when absent), the alerts shown, the lines
  written with \<^verbatim>\<open>console.error\<close> (label and argument), and the requests sent.
\<close>

record world =
  button_disabled :: bool
  joke_text :: "jsstring option"
  audio :: "audio_element option"
  alerts :: "string list"
  console :: "(string \<times> jsstring) list"
  sent :: "http_request list"

datatype completion = Returned | Threw exn

section \<open>VoiceRSS\<close>

record settings =
  key :: jsval
  src :: jsval
  hl :: jsval
  r :: jsval
  c :: jsval
  f :: jsval
  ssml :: jsval

text \<open>\<^verbatim>\<open>audio.canPlayType(mime).replace("no", "")\<close>, the value both probes test.\<close>

definition probe :: "browser \<Rightarrow> string \<Rightarrow> jsval" where
  "probe env mime = JStr (String_replace (canPlayType env mime) (js ''no'') [])"

definition validate :: "browser \<Rightarrow> settings option \<Rightarrow> exn + settings" where
  "validate env so =
     (case so of
        None \<Rightarrow> Inl (Error (js ''The settings are undefined''))
      | Some s \<Rightarrow>
          if \<not> truthy (key s) then Inl (Error (js ''The API key is undefined''))
          else if \<not> truthy (src s) then Inl (Error (js ''The text is undefined''))
          else if \<not> truthy (hl s) then Inl (Error (js ''The language is undefined''))
          else if truthy (c s) then
            (case toLowerCase (c s) of
               Inl e \<Rightarrow> Inl e
             | Inr lc \<Rightarrow>
                 if lc \<noteq> js ''auto'' then
                   (let codecSupported =
                      (if lc = js ''mp3'' then probe env ''audio/mpeg''
                       else if lc = js ''wav'' then probe env ''audio/wav''
                       else if lc = js ''aac'' then probe env ''audio/aac''
                       else if lc = js ''ogg'' then probe env ''audio/ogg''
                       else if lc = js ''caf'' then probe env ''audio/x-caf''
                       else JBool False)
                    in if \<not> truthy codecSupported
                       then Inl (Error (js ''The browser does not support the audio codec ''
                                        @ ToString (c s)))
                       else Inr s)
                 else Inr s)
          else Inr s)"

definition detectCodec :: "browser \<Rightarrow> jsstring" where
  "detectCodec env =
     (if truthy (probe env ''audio/mpeg'') then js ''mp3''
      else if truthy (probe env ''audio/wav'') then js ''wav''
      else if truthy (probe env ''audio/aac'') then js ''aac''
      else if truthy (probe env ''audio/ogg'') then js ''ogg''
      else if truthy (probe env ''audio/x-caf'') then js ''caf''
      else [])"

text \<open>The constant \<^verbatim>\<open>codec\<close> of \<^verbatim>\<open>_buildRequest\<close>.\<close>

definition chosen_codec :: "browser \<Rightarrow> settings \<Rightarrow> exn + jsval" where
  "chosen_codec env s =
     (if truthy (c s) then
        (case toLowerCase (c s) of
           Inl e \<Rightarrow> Inl e
         | Inr lc \<Rightarrow> Inr (if lc \<noteq> js ''auto'' then c s else JStr (detectCodec env)))
      else Inr (JStr (detectCodec env)))"

text \<open>\<^verbatim>\<open>encodeURIComponent(v || "")\<close>, the argument turned into its string.\<close>

definition encode_field :: "jsval \<Rightarrow> exn + string" where
  "encode_field v = encodeURIComponent (ToString (js_or v (JStr [])))"

text \<open>
  The template of \<^verbatim>\<open>_buildRequest\<close> is evaluated from left to right; the first call of
  \<^verbatim>\<open>encodeURIComponent\<close> that throws ends it.
\<close>

definition buildRequest :: "browser \<Rightarrow> settings \<Rightarrow> exn + string" where
  "buildRequest env s =
     (case chosen_codec env s of Inl e \<Rightarrow> Inl e | Inr codec \<Rightarrow>
      case encode_field (key s) of Inl e \<Rightarrow> Inl e | Inr v1 \<Rightarrow>
      case encode_field (src s) of Inl e \<Rightarrow> Inl e | Inr v2 \<Rightarrow>
      case encode_field (hl s) of Inl e \<Rightarrow> Inl e | Inr v3 \<Rightarrow>
      case encode_field (r s) of Inl e \<Rightarrow> Inl e | Inr v4 \<Rightarrow>
      case encode_field codec of Inl e \<Rightarrow> Inl e | Inr v5 \<Rightarrow>
      case encode_field (f s) of Inl e \<Rightarrow> Inl e | Inr v6 \<Rightarrow>
      case encode_field (ssml s) of Inl e \<Rightarrow> Inl e | Inr v7 \<Rightarrow>
        Inr (''key='' @ v1 @ ''&src='' @ v2 @ ''&hl='' @ v3 @ ''&r='' @ v4 @ ''&c='' @ v5
             @ ''&f='' @ v6 @ ''&ssml='' @ v7 @ ''&b64=true''))"

text \<open>The constructor that gave the request object, or the error when none did.\<close>

definition getXHR :: "browser \<Rightarrow> exn + string" where
  "getXHR env =
     (if new_XMLHttpRequest env then Inr ''XMLHttpRequest''
      else if new_ActiveXObject env ''Msxml3.XMLHTTP'' then Inr ''Msxml3.XMLHTTP''
      else if new_ActiveXObject env ''Msxml2.XMLHTTP.6.0'' then Inr ''Msxml2.XMLHTTP.6.0''
      else if new_ActiveXObject env ''Msxml2.XMLHTTP.3.0'' then Inr ''Msxml2.XMLHTTP.3.0''
      else if new_ActiveXObject env ''Msxml2.XMLHTTP'' then Inr ''Msxml2.XMLHTTP''
      else if new_ActiveXObject env ''Microsoft.XMLHTTP'' then Inr ''Microsoft.XMLHTTP''
      else Inl (Error (js ''The browser does not support HTTP request'')))"

text \<open>The request \<^verbatim>\<open>_request\<close> opens, gives its header and sends.\<close>

definition post :: "string \<Rightarrow> string \<Rightarrow> http_request" where
  "post xhr requestBody =
     \<lparr>transport = xhr, req_method = ''POST'', req_url = ''https://api.voicerss.org/'',
      req_async = True,
      req_headers = [(''Content-Type'', ''application/x-www-form-urlencoded; charset=UTF-8'')],
      req_body = requestBody\<rparr>"

definition request :: "browser \<Rightarrow> settings \<Rightarrow> world \<Rightarrow> completion \<times> world" where
  "request env s w =
     (case buildRequest env s of
        Inl e \<Rightarrow> (Threw e, w)
      | Inr requestBody \<Rightarrow>
          (case getXHR env of
             Inl e \<Rightarrow> (Threw e, w)
           | Inr xhr \<Rightarrow> (Returned, w\<lparr>sent := sent w @ [post xhr requestBody]\<rparr>)))"

definition speech :: "browser \<Rightarrow> settings option \<Rightarrow> world \<Rightarrow> completion \<times> world" where
  "speech env so w =
     (case validate env so of
        Inl e \<Rightarrow> (Threw e, w)
      | Inr s \<Rightarrow> request env s w)"

text \<open>
  The handler \<^verbatim>\<open>_request\<close> stores in \<^verbatim>\<open>xhr.onreadystatechange\<close>, run by the browser
  at each change of the request's state.
\<close>

record xhr_state =
  readyState :: nat
  status :: nat
  responseText :: jsstring

definition onreadystatechange :: "browser \<Rightarrow> xhr_state \<Rightarrow> world \<Rightarrow> completion \<times> world" where
  "onreadystatechange env xhr w =
     (if readyState xhr = 4 then
        if status xhr = 200 then
          if String_indexOf (responseText xhr) (js ''ERROR'') = 0
          then (Threw (Error (responseText xhr)), w)
          else
            (case audio w of
               Some audioElement \<Rightarrow>
                 (let w1 = w\<lparr>audio := Some (audioElement\<lparr>audio_src := responseText xhr,
                                                           plays := plays audioElement + 1\<rparr>)\<rparr>
                  in (Returned,
                      (case play_rejection env of
                         None \<Rightarrow> w1
                       | Some err \<Rightarrow> w1\<lparr>console := console w1 @ [(''Audio playback failed:'', err)]\<rparr>)))
             | None \<Rightarrow>
                 (Returned, w\<lparr>console := console w @ [(''Audio element not found in the DOM.'', [])]\<rparr>))
        else
          (Returned,
           w\<lparr>console := console w @ [(''HTTP request failed with status'', js (nat_digits (status xhr)))]\<rparr>)
      else (Returned, w))"

section \<open>The joke controller\<close>

text \<open>
  How the awaited calls of \<^verbatim>\<open>fetchJoke\<close> settle: \<^verbatim>\<open>fetch\<close> is rejected, or
  \<^verbatim>\<open>response.json()\<close> is rejected, or it gives a value. Of that value the code reads
  the property \<^verbatim>\<open>joke\<close> only: None stands for the JSON value null, where the read
  throws, and Some v for a value whose property \<^verbatim>\<open>joke\<close> is v (JUndefined when it has
  none).
\<close>

datatype api_reply = FetchRejected jsstring | JsonRejected jsstring | JsonValue "jsval option"

definition fetchJoke :: "api_reply \<Rightarrow> world \<Rightarrow> (exn + jsval) \<times> world" where
  "fetchJoke reply w =
     (case reply of
        JsonValue (Some joke) \<Rightarrow> (Inr joke, w)
      | JsonValue None \<Rightarrow>
          (Inl (Error (js ''Failed to fetch a joke.'')),
           w\<lparr>console := console w @ [(''Error fetching joke:'', js ''TypeError'')]\<rparr>)
      | FetchRejected err \<Rightarrow>
          (Inl (Error (js ''Failed to fetch a joke.'')),
           w\<lparr>console := console w @ [(''Error fetching joke:'', err)]\<rparr>)
      | JsonRejected err \<Rightarrow>
          (Inl (Error (js ''Failed to fetch a joke.'')),
           w\<lparr>console := console w @ [(''Error fetching joke:'', err)]\<rparr>))"

text \<open>
  The assignment \<^verbatim>\<open>jokeTextElement.textContent = v\<close>: a TypeError when the page has no
  such element; undefined and null give the empty text, any other value its string.
\<close>

definition textContent_string :: "jsval \<Rightarrow> jsstring" where
  "textContent_string v = (case v of JUndefined \<Rightarrow> [] | JNull \<Rightarrow> [] | _ \<Rightarrow> ToString v)"

definition set_textContent :: "jsval \<Rightarrow> world \<Rightarrow> completion \<times> world" where
  "set_textContent v w =
     (case joke_text w of
        None \<Rightarrow> (Threw (TypeError (js ''jokeTextElement is null'')), w)
      | Some old \<Rightarrow> (Returned, w\<lparr>joke_text := Some (textContent_string v)\<rparr>))"

text \<open>The settings object the controller passes to \<^verbatim>\<open>VoiceRSS.speech\<close>.\<close>

definition joke_settings :: "jsval \<Rightarrow> settings" where
  "joke_settings joke =
     \<lparr>key = JStr (js ''YOUR API''), src = joke, hl = JStr (js ''en-us''), r = JInt False 0,
      c = JStr (js ''mp3''), f = JStr (js ''44khz_16bit_stereo''), ssml = JUndefined\<rparr>"

definition exn_message :: "exn \<Rightarrow> jsstring" where
  "exn_message e = (case e of Error m \<Rightarrow> m | TypeError m \<Rightarrow> m | URIError m \<Rightarrow> m)"

text \<open>The three blocks of \<^verbatim>\<open>handleJokeButtonClick\<close>: try, catch, finally.\<close>

definition try_block :: "browser \<Rightarrow> api_reply \<Rightarrow> world \<Rightarrow> completion \<times> world" where
  "try_block env reply w =
     (let w1 = w\<lparr>button_disabled := True\<rparr> in
      case set_textContent (JStr (js ''Loading joke...'')) w1 of
        (Threw e, w2) \<Rightarrow> (Threw e, w2)
      | (Returned, w2) \<Rightarrow>
          (case fetchJoke reply w2 of
             (Inl e, w3) \<Rightarrow> (Threw e, w3)
           | (Inr joke, w3) \<Rightarrow>
               (case set_textContent joke w3 of
                  (Threw e, w4) \<Rightarrow> (Threw e, w4)
                | (Returned, w4) \<Rightarrow> speech env (Some (joke_settings joke)) w4)))"

definition catch_block :: "exn \<Rightarrow> world \<Rightarrow> completion \<times> world" where
  "catch_block e w =
     (let w1 = w\<lparr>console := console w @ [(''Error processing the joke:'', exn_message e)]\<rparr>;
          w2 = w1\<lparr>alerts := alerts w1 @ [''Sorry, we couldn't fetch a joke. Please try again later.'']\<rparr>
      in set_textContent (JStr []) w2)"

definition finally_block :: "world \<Rightarrow> world" where
  "finally_block w = w\<lparr>button_disabled := False\<rparr>"

text \<open>
  One run of the handler, the awaited promise settling as \<open>reply\<close> says: the completion
  of the async function (Threw: its promise is rejected) and the page afterwards. The
  button exists, since the handler is attached to it; nothing else touches the page
  while the fetch is awaited.
\<close>

definition handleJokeButtonClick :: "browser \<Rightarrow> api_reply \<Rightarrow> world \<Rightarrow> completion \<times> world" where
  "handleJokeButtonClick env reply w =
     (case try_block env reply w of
        (Returned, w1) \<Rightarrow> (Returned, finally_block w1)
      | (Threw e, w1) \<Rightarrow>
          (case catch_block e w1 of (res, w2) \<Rightarrow> (res, finally_block w2)))"

section \<open>Notions the properties are stated with\<close>

text \<open>
  The codec names of the enumeration with the MIME type the code probes for each (the
  cases of the switch in \<^verbatim>\<open>_validate\<close>, the lines of \<^verbatim>\<open>_detectCodec\<close>), in the
  priority order of the specification.
\<close>

definition codec_table :: "(jsstring \<times> string) list" where
  "codec_table =
     [(js ''mp3'', ''audio/mpeg''), (js ''wav'', ''audio/wav''), (js ''aac'', ''audio/aac''),
      (js ''ogg'', ''audio/ogg''), (js ''caf'', ''audio/x-caf'')]"

text \<open>
  The capability probe's verdict on a codec name: for a name of the enumeration, whether
  the browser's answer for its MIME type, the word no removed, is a non-empty string.
\<close>

definition probe_supports :: "browser \<Rightarrow> jsstring \<Rightarrow> bool" where
  "probe_supports env name =
     (case map_of codec_table name of
        None \<Rightarrow> False
      | Some mime \<Rightarrow> String_replace (canPlayType env mime) (js ''no'') [] \<noteq> [])"

text \<open>
  The specification's codec selection: the first name in priority order that the probe
  supports, the empty string when it supports none.
\<close>

definition first_supported :: "browser \<Rightarrow> jsstring" where
  "first_supported env =
     (case filter (probe_supports env) (map fst codec_table) of
        [] \<Rightarrow> []
      | name # rest \<Rightarrow> name)"

text \<open>The two kinds of error that validation raises, told by their messages.\<close>

definition invalid_request :: "exn \<Rightarrow> bool" where
  "invalid_request e =
     (e = Error (js ''The API key is undefined'') \<or> e = Error (js ''The text is undefined'')
      \<or> e = Error (js ''The language is undefined''))"

definition unsupported_codec :: "exn \<Rightarrow> bool" where
  "unsupported_codec e =
     (case e of
        Error m \<Rightarrow> prefix (js ''The browser does not support the audio codec '') m
      | TypeError m \<Rightarrow> False
      | URIError m \<Rightarrow> False)"

text \<open>The error of the first required field that is missing, in the order of the tests.\<close>

definition missing_field_error :: "settings \<Rightarrow> exn" where
  "missing_field_error s =
     (if \<not> truthy (key s) then Error (js ''The API key is undefined'')
      else if \<not> truthy (src s) then Error (js ''The text is undefined'')
      else Error (js ''The language is undefined''))"

definition required_present :: "settings \<Rightarrow> bool" where
  "required_present s = (truthy (key s) \<and> truthy (src s) \<and> truthy (hl s))"

text \<open>
  A request object can be constructed: \<^verbatim>\<open>XMLHttpRequest\<close>, or \<^verbatim>\<open>ActiveXObject\<close> with one
  of the five identifiers that \<^verbatim>\<open>_getXHR\<close> tries.
\<close>

definition can_construct :: "browser \<Rightarrow> bool" where
  "can_construct env =
     (new_XMLHttpRequest env
      \<or> list_ex (new_ActiveXObject env)
           [''Msxml3.XMLHTTP'', ''Msxml2.XMLHTTP.6.0'', ''Msxml2.XMLHTTP.3.0'', ''Msxml2.XMLHTTP'',
            ''Microsoft.XMLHTTP''])"

text \<open>
  A string is well formed when it has no lone surrogate: every high surrogate is
  followed by a low one, and every low one follows a high one.
\<close>

fun well_formed :: "jsstring \<Rightarrow> bool" where
  "well_formed [] = True"
| "well_formed [u] = (\<not> low_surrogate u \<and> \<not> high_surrogate u)"
| "well_formed (u # v # rest) =
     (if high_surrogate u then low_surrogate v \<and> well_formed rest
      else \<not> low_surrogate u \<and> well_formed (v # rest))"

text \<open>The octets of the UTF-8 encoding of a well-formed string.\<close>

fun utf8_bytes :: "jsstring \<Rightarrow> char list" where
  "utf8_bytes [] = []"
| "utf8_bytes [u] = utf8_octets (unat u)"
| "utf8_bytes (u # v # rest) =
     (if high_surrogate u \<and> low_surrogate v then utf8_octets (code_point u v) @ utf8_bytes rest
      else utf8_octets (unat u) @ utf8_bytes (v # rest))"

text \<open>
  Reading a form body back, as the receiving service does: the body is cut at every
  ampersand, each piece at its first equals sign into a name and a value, and a value
  is decoded by turning each percent sign with its two hexadecimal digits into an octet.
\<close>

fun split_on :: "char \<Rightarrow> string \<Rightarrow> string list" where
  "split_on d [] = [[]]"
| "split_on d (x # xs) =
     (if x = d then [] # split_on d xs
      else (case split_on d xs of [] \<Rightarrow> [[x]] | p # ps \<Rightarrow> (x # p) # ps))"

definition form_fields :: "string \<Rightarrow> (string \<times> string) list" where
  "form_fields body =
     map (\<lambda>p. (takeWhile (\<lambda>ch. ch \<noteq> CHR ''='') p, drop 1 (dropWhile (\<lambda>ch. ch \<noteq> CHR ''='') p)))
       (split_on (CHR ''&'') body)"

definition form_field :: "string \<Rightarrow> string \<Rightarrow> string option" where
  "form_field body name = map_of (form_fields body) name"

definition hex_value :: "char \<Rightarrow> nat" where
  "hex_value ch =
     (let n = (of_char ch :: nat) in if n \<le> 57 then n - 48 else if n \<le> 70 then n - 55 else n - 87)"

fun percent_decode :: "string \<Rightarrow> char list" where
  "percent_decode [] = []"
| "percent_decode [x] = [x]"
| "percent_decode [x, y] = [x, y]"
| "percent_decode (x # y # z # xs) =
     (if x = CHR ''%'' then char_of (16 * hex_value y + hex_value z) # percent_decode xs
      else x # percent_decode (y # z # xs))"

text \<open>The characters an encoded value is made of.\<close>

definition url_char :: "char \<Rightarrow> bool" where
  "url_char ch = (ch = CHR ''%'' \<or> unreserved (of_nat (of_char ch)))"

text \<open>The value of \<^verbatim>\<open>encodeURIComponent\<close> where it returns one.\<close>

definition encoded :: "jsstring \<Rightarrow> string" where
  "encoded t = (case encodeURIComponent t of Inl e \<Rightarrow> [] | Inr v \<Rightarrow> v)"

text \<open>What a field of the settings contributes to the body: its string, nothing when it is falsy.\<close>

definition field_text :: "jsval \<Rightarrow> jsstring" where
  "field_text v = (if truthy v then ToString v else [])"

text \<open>The six fields that are encoded as the caller gave them hold well-formed texts.\<close>

definition texts_well_formed :: "settings \<Rightarrow> bool" where
  "texts_well_formed s =
     (well_formed (field_text (key s)) \<and> well_formed (field_text (src s))
      \<and> well_formed (field_text (hl s)) \<and> well_formed (field_text (r s))
      \<and> well_formed (field_text (f s)) \<and> well_formed (field_text (ssml s)))"

text \<open>
  An integer as a number value (for a magnitude below 2 to the 53), its decimal
  representation, and the number a string of decimal digits stands for.
\<close>

definition js_int :: "int \<Rightarrow> jsval" where
  "js_int n = JInt (n < 0) (of_nat (nat \<bar>n\<bar>))"

definition decimal :: "int \<Rightarrow> string" where
  "decimal n = (if n < 0 then ''-'' else []) @ nat_digits (nat \<bar>n\<bar>)"

definition decimal_value :: "string \<Rightarrow> nat" where
  "decimal_value ds = foldl (\<lambda>a ch. 10 * a + (of_char ch - 48)) 0 ds"

text \<open>A codec given explicitly: a non-empty string other than auto in any letter case.\<close>

definition explicit_codec :: "settings \<Rightarrow> jsstring \<Rightarrow> bool" where
  "explicit_codec s name = (c s = JStr name \<and> name \<noteq> [] \<and> String_toLowerCase name \<noteq> js ''auto'')"

text \<open>The codec left to the client: the field falsy (omitted, empty) or auto in any letter case.\<close>

definition automatic_codec :: "settings \<Rightarrow> bool" where
  "automatic_codec s =
     (case c s of
        JStr name \<Rightarrow> name = [] \<or> String_toLowerCase name = js ''auto''
      | v \<Rightarrow> \<not> truthy v)"

section \<open>Browsers, pages and settings to run the code on\<close>

text \<open>A browser that plays mp3 and ogg and has XMLHttpRequest; playback succeeds.\<close>

definition modern_browser :: browser where
  "modern_browser =
     \<lparr>canPlayType = (\<lambda>mime. if mime = ''audio/mpeg'' then js ''probably''
                              else if mime = ''audio/ogg'' then js ''maybe'' else []),
      new_XMLHttpRequest = True, new_ActiveXObject = (\<lambda>name. False), play_rejection = None\<rparr>"

text \<open>A browser that plays no audio format of the enumeration.\<close>

definition mute_browser :: browser where
  "mute_browser =
     \<lparr>canPlayType = (\<lambda>mime. []), new_XMLHttpRequest = True,
      new_ActiveXObject = (\<lambda>name. False), play_rejection = None\<rparr>"

text \<open>A browser that plays mp3 and in which no request object can be constructed.\<close>

definition offline_browser :: browser where
  "offline_browser =
     \<lparr>canPlayType = (\<lambda>mime. if mime = ''audio/mpeg'' then js ''probably'' else []),
      new_XMLHttpRequest = False, new_ActiveXObject = (\<lambda>name. False), play_rejection = None\<rparr>"

text \<open>A browser that plays none of the formats and in which no request object can be constructed.\<close>

definition bare_browser :: browser where
  "bare_browser =
     \<lparr>canPlayType = (\<lambda>mime. []), new_XMLHttpRequest = False,
      new_ActiveXObject = (\<lambda>name. False), play_rejection = None\<rparr>"

text \<open>The page after a joke was shown: the button enabled, the audio element silent.\<close>

definition joke_page :: world where
  "joke_page =
     \<lparr>button_disabled = False, joke_text = Some (js ''An earlier joke''),
      audio = Some \<lparr>audio_src = [], plays = 0\<rparr>, alerts = [], console = [], sent = []\<rparr>"

definition a_joke :: jsval where
  "a_joke = JStr (js ''Knock knock?'')"

text \<open>A joke that ends in a lone high surrogate, as the JSON text \<^verbatim>\<open>"joke \ud800"\<close> gives.\<close>

definition broken_joke :: jsval where
  "broken_joke = JStr (js ''joke '' @ [55296])"

text \<open>The number 10 to the 21, which JavaScript prints as 1e+21.\<close>

definition ten_to_21 :: jsval where
  "ten_to_21 = JNumber (js ''1e+21'')"

lemma unat_js_unit: "unat (of_nat (of_char ch) :: 16 word) = of_char ch"
proof -
  have "(of_char ch :: nat) < 256"
    by simp
  then have "(of_char ch :: nat) < 2 ^ 16"
    by (rule less_trans) simp
  then show ?thesis
    by (simp add: unat_of_nat take_bit_nat_eq_self)
qed

lemma ascii_char_js_unit: "ascii_char (of_nat (of_char ch)) = ch"
  by (simp add: ascii_char_def unat_js_unit)

lemma ascii_char_js: "map ascii_char (js s) = s"
  by (induction s) (simp_all add: js_def ascii_char_js_unit)

lemma js_inject: "js a = js b \<longleftrightarrow> a = b"
proof
  assume "js a = js b"
  then have "map ascii_char (js a) = map ascii_char (js b)"
    by simp
  then show "a = b"
    by (simp add: ascii_char_js)
qed simp

lemma js_Nil: "js [] = []"
  by (simp add: js_def)

lemma js_eq_Nil: "js s = [] \<longleftrightarrow> s = []"
  by (simp add: js_def)

lemma js_append: "js (a @ b) = js a @ js b"
  by (simp add: js_def)

lemma js_Cons: "js (ch # s) = of_nat (of_char ch) # js s"
  by (simp add: js_def)

lemma unreserved_not_surrogate:
  "unreserved u \<Longrightarrow> \<not> low_surrogate u \<and> \<not> high_surrogate u"
  by (auto simp: unreserved_def low_surrogate_def high_surrogate_def Let_def)

lemma unreserved_ascii: "unreserved u \<Longrightarrow> unat u < 128"
  by (auto simp: unreserved_def Let_def)

lemma of_char_ascii_char: "unat u < 256 \<Longrightarrow> (of_char (ascii_char u) :: nat) = unat u"
  by (simp add: ascii_char_def)

lemma js_unit_ascii_char: "unat u < 256 \<Longrightarrow> of_nat (of_char (ascii_char u)) = u"
  by (simp add: of_char_ascii_char)

lemma url_char_ascii: "unreserved u \<Longrightarrow> url_char (ascii_char u)"
  using unreserved_ascii [of u] by (simp add: url_char_def js_unit_ascii_char)

lemma of_char_hex_digit:
  "d < 16 \<Longrightarrow> (of_char (hex_digit d) :: nat) = (if d < 10 then 48 + d else 55 + d)"
  by (simp add: hex_digit_def)

lemma hex_digit_url_char: "d < 16 \<Longrightarrow> url_char (hex_digit d)"
  unfolding url_char_def unreserved_def Let_def unat_js_unit by (simp add: of_char_hex_digit)

lemma hex_value_hex_digit: "d < 16 \<Longrightarrow> hex_value (hex_digit d) = d"
  unfolding hex_value_def Let_def by (simp add: of_char_hex_digit)

lemma of_char_div_16: "(of_char ch :: nat) div 16 < 16"
  by (simp add: less_mult_imp_div_less)

lemma percent_byte_alphabet: "x \<in> set (percent_byte ch) \<Longrightarrow> url_char x"
proof -
  assume "x \<in> set (percent_byte ch)"
  then consider "x = CHR ''%''" | "x = hex_digit (of_char ch div 16)"
    | "x = hex_digit (of_char ch mod 16)"
    by (auto simp: percent_byte_def Let_def)
  then show ?thesis
  proof cases
    case 1
    then show ?thesis by (simp add: url_char_def)
  next
    case 2
    then show ?thesis using of_char_div_16 [of ch] by (simp add: hex_digit_url_char)
  next
    case 3
    then show ?thesis by (simp add: hex_digit_url_char)
  qed
qed

lemma escape_alphabet: "x \<in> set (escape cp) \<Longrightarrow> url_char x"
  by (auto simp: escape_def dest: percent_byte_alphabet)

lemma prepend_Inr: "prepend a res = Inr v \<longleftrightarrow> (\<exists>v'. res = Inr v' \<and> v = a @ v')"
  by (cases res) (auto simp: prepend_def)

text \<open>An encoded value is made of unreserved characters and percent signs only.\<close>

lemma encodeURIComponent_alphabet:
  "encodeURIComponent s = Inr v \<Longrightarrow> x \<in> set v \<Longrightarrow> url_char x"
proof (induction s arbitrary: v rule: encodeURIComponent.induct)
  case 1
  then show ?case by simp
next
  case (2 u)
  then show ?case
    by (auto split: if_splits dest: escape_alphabet url_char_ascii)
next
  case (3 u w rest)
  then show ?case
    by (auto simp: prepend_Inr split: if_splits dest: escape_alphabet url_char_ascii)
qed

lemma separators_reserved: "\<not> url_char (CHR ''&'')" "\<not> url_char (CHR ''='')"
  by (simp_all add: url_char_def unreserved_def)

lemma encodeURIComponent_no_separator:
  "encodeURIComponent s = Inr v \<Longrightarrow> CHR ''&'' \<notin> set v"
  using encodeURIComponent_alphabet separators_reserved by blast

lemma surrogates_disjoint: "high_surrogate u \<Longrightarrow> \<not> low_surrogate u"
  by (simp add: high_surrogate_def low_surrogate_def)

text \<open>Encoding succeeds on the well-formed strings and on no other.\<close>

lemma encodeURIComponent_well_formed:
  "well_formed s \<Longrightarrow> \<exists>v. encodeURIComponent s = Inr v"
proof (induction s rule: encodeURIComponent.induct)
  case 1
  show ?case by simp
next
  case (2 u)
  then show ?case by simp
next
  case (3 u w rest)
  then show ?case
    by (auto simp: prepend_Inr dest: unreserved_not_surrogate surrogates_disjoint split: if_splits)
qed

lemma prepend_Inl: "res = Inl e \<Longrightarrow> prepend a res = Inl e"
  by (simp add: prepend_def)

lemma encodeURIComponent_ill_formed:
  "\<not> well_formed s \<Longrightarrow> encodeURIComponent s = Inl (URIError (js ''URI malformed''))"
proof (induction s rule: encodeURIComponent.induct)
  case 1
  then show ?case by simp
next
  case (2 u)
  then show ?case
    by (auto dest: unreserved_not_surrogate)
next
  case (3 u w rest)
  then show ?case
    by (auto simp: prepend_Inl dest: unreserved_not_surrogate split: if_splits)
qed

lemma encodeURIComponent_Inr_iff: "(\<exists>v. encodeURIComponent s = Inr v) \<longleftrightarrow> well_formed s"
  using encodeURIComponent_well_formed encodeURIComponent_ill_formed by fastforce

lemma encoded_Inr: "well_formed s \<Longrightarrow> encodeURIComponent s = Inr (encoded s)"
  using encodeURIComponent_well_formed [of s] by (auto simp: encoded_def)

lemma encoded_eq: "encodeURIComponent s = Inr v \<Longrightarrow> encoded s = v"
  by (simp add: encoded_def)

lemma percent_decode_plain:
  "x \<noteq> CHR ''%'' \<Longrightarrow> percent_decode (x # xs) = x # percent_decode xs"
  by (cases xs rule: percent_decode.cases) auto

lemma percent_decode_byte:
  "percent_decode (percent_byte ch @ xs) = ch # percent_decode xs"
proof -
  have "char_of (16 * ((of_char ch :: nat) div 16) + of_char ch mod 16) = ch"
    by simp
  then show ?thesis
    using of_char_div_16 [of ch]
    by (simp add: percent_byte_def Let_def hex_value_hex_digit)
qed

lemma percent_decode_bytes:
  "percent_decode (concat (map percent_byte bs) @ xs) = bs @ percent_decode xs"
  by (induction bs) (simp_all add: percent_decode_byte)

lemma percent_decode_escape:
  "percent_decode (escape cp @ xs) = utf8_octets cp @ percent_decode xs"
  by (simp add: escape_def percent_decode_bytes)

lemma percent_decode_escape_end: "percent_decode (escape cp) = utf8_octets cp"
  using percent_decode_escape [of cp "[]"] by simp

lemma ascii_char_not_percent: "unreserved u \<Longrightarrow> ascii_char u \<noteq> CHR ''%''"
proof
  assume u: "unreserved u" and "ascii_char u = CHR ''%''"
  then have "(of_char (ascii_char u) :: nat) = 37"
    by simp
  with u show False
    using unreserved_ascii [of u] by (simp add: of_char_ascii_char unreserved_def Let_def)
qed

lemma utf8_octets_ascii: "unreserved u \<Longrightarrow> utf8_octets (unat u) = [ascii_char u]"
  using unreserved_ascii [of u] by (simp add: utf8_octets_def ascii_char_def)

text \<open>Decoding an encoded value gives the octets of the UTF-8 encoding of the string.\<close>

lemma percent_decode_encodeURIComponent:
  "encodeURIComponent s = Inr v \<Longrightarrow> percent_decode v = utf8_bytes s"
proof (induction s arbitrary: v rule: encodeURIComponent.induct)
  case 1
  then show ?case by simp
next
  case (2 u)
  then show ?case
    by (auto simp: utf8_octets_ascii percent_decode_escape_end split: if_splits)
next
  case (3 u w rest)
  show ?case
  proof (cases "unreserved u")
    case True
    with 3 show ?thesis
      by (auto simp: prepend_Inr percent_decode_plain ascii_char_not_percent utf8_octets_ascii
          dest: unreserved_not_surrogate)
  next
    case False
    with 3 show ?thesis
      by (auto simp: prepend_Inr percent_decode_escape split: if_splits)
  qed
qed

lemma encodeURIComponent_unreserved:
  "list_all unreserved s \<Longrightarrow> encodeURIComponent s = Inr (map ascii_char s)"
  by (induction s rule: encodeURIComponent.induct) (simp_all add: prepend_def)

lemma unreserved_well_formed: "list_all unreserved s \<Longrightarrow> well_formed s"
  using encodeURIComponent_unreserved encodeURIComponent_ill_formed by fastforce

lemma utf8_bytes_unreserved: "list_all unreserved s \<Longrightarrow> utf8_bytes s = map ascii_char s"
  by (induction s rule: utf8_bytes.induct)
    (auto simp: utf8_octets_ascii dest: unreserved_not_surrogate)

lemma unat_of_nat_16: "k < 65536 \<Longrightarrow> unat (of_nat k :: 16 word) = k"
  by (simp add: unat_of_nat)

lemma unat_of_nat_53: "k < 9007199254740992 \<Longrightarrow> unat (of_nat k :: 53 word) = k"
  by (simp add: unat_of_nat)

lemma unat_lower_unit:
  "unat (lower_unit u) = (if 65 \<le> unat u \<and> unat u \<le> 90 then unat u + 32 else unat u)"
proof (cases "65 \<le> unat u \<and> unat u \<le> 90")
  case True
  then have "unat u + 32 < 65536"
    by simp
  then have "unat (of_nat (unat u + 32) :: 16 word) = unat u + 32"
    by (rule unat_of_nat_16)
  with True show ?thesis
    by (simp only: lower_unit_def if_True simp_thms)
next
  case False
  then show ?thesis
    by (simp only: lower_unit_def if_False simp_thms)
qed

lemma lower_unit_unreserved: "unreserved (lower_unit u) \<Longrightarrow> unreserved u"
  unfolding unreserved_def Let_def unat_lower_unit by (auto split: if_splits)

lemma toLowerCase_unreserved:
  "list_all unreserved (String_toLowerCase s) \<Longrightarrow> list_all unreserved s"
  by (induction s) (auto simp: String_toLowerCase_def dest: lower_unit_unreserved)

lemma unreserved_js_unit:
  "unreserved (of_nat (of_char ch)) \<longleftrightarrow>
     (let n = (of_char ch :: nat) in
        (48 \<le> n \<and> n \<le> 57) \<or> (65 \<le> n \<and> n \<le> 90) \<or> (97 \<le> n \<and> n \<le> 122)
        \<or> n = 45 \<or> n = 95 \<or> n = 46 \<or> n = 33 \<or> n = 126 \<or> n = 42 \<or> n = 39 \<or> n = 40 \<or> n = 41)"
  by (simp add: unreserved_def unat_js_unit)

text \<open>\<^verbatim>\<open>s.indexOf(pat) === 0\<close> says that \<open>s\<close> begins with \<open>pat\<close>.\<close>

lemma String_indexOf_0: "String_indexOf s pat = 0 \<longleftrightarrow> prefix pat s"
  by (induction s) (auto simp: Let_def)

section \<open>Facts about reading a form body\<close>

lemma split_on_last: "d \<notin> set a \<Longrightarrow> split_on d a = [a]"
  by (induction a) auto

lemma split_on_append: "d \<notin> set a \<Longrightarrow> split_on d (a @ d # rest) = a # split_on d rest"
  by (induction a) auto

lemma form_fields_of_body:
  assumes "CHR ''&'' \<notin> set v1" "CHR ''&'' \<notin> set v2" "CHR ''&'' \<notin> set v3" "CHR ''&'' \<notin> set v4"
    "CHR ''&'' \<notin> set v5" "CHR ''&'' \<notin> set v6" "CHR ''&'' \<notin> set v7"
  shows "form_fields (''key='' @ v1 @ ''&src='' @ v2 @ ''&hl='' @ v3 @ ''&r='' @ v4 @ ''&c='' @ v5
            @ ''&f='' @ v6 @ ''&ssml='' @ v7 @ ''&b64=true'')
         = [(''key'', v1), (''src'', v2), (''hl'', v3), (''r'', v4), (''c'', v5), (''f'', v6),
            (''ssml'', v7), (''b64'', ''true'')]"
  using assms by (simp add: form_fields_def split_on_append split_on_last)

section \<open>Facts about numbers\<close>

lemma digit_char_unreserved: "d < 10 \<Longrightarrow> unreserved (of_nat (of_char (digit_char d)))"
  unfolding unreserved_js_unit digit_char_def Let_def by simp

lemma nat_digits_unreserved: "list_all unreserved (js (nat_digits n))"
proof (induction n rule: nat_digits.induct)
  case (1 n)
  show ?case
  proof (cases "n < 10")
    case True
    then show ?thesis
      by (subst nat_digits.simps) (simp add: js_def digit_char_unreserved)
  next
    case False
    with 1 show ?thesis
      by (subst nat_digits.simps) (simp add: js_def digit_char_unreserved)
  qed
qed

lemma minus_unreserved: "unreserved (of_nat (of_char (CHR ''-'')))"
  unfolding unreserved_js_unit Let_def by simp

lemma decimal_unreserved: "list_all unreserved (js (decimal n))"
  using nat_digits_unreserved [of "nat \<bar>n\<bar>"] minus_unreserved
  by (simp add: decimal_def js_def)

lemma ToString_JInt_unreserved: "list_all unreserved (ToString (JInt neg m))"
  using nat_digits_unreserved [of "unat m"] minus_unreserved
  by (simp add: js_def)

lemma nat_digits_value: "decimal_value (nat_digits n) = n"
proof (induction n rule: nat_digits.induct)
  case (1 n)
  show ?case
  proof (cases "n < 10")
    case True
    then show ?thesis
      by (subst nat_digits.simps) (simp add: decimal_value_def digit_char_def)
  next
    case False
    with 1 have "decimal_value (nat_digits (n div 10)) = n div 10"
      by simp
    with False show ?thesis
      by (subst nat_digits.simps) (simp add: decimal_value_def digit_char_def)
  qed
qed

text \<open>Below 2 to the 53 the number value of an integer prints as its decimal representation.\<close>

lemma ToString_js_int:
  assumes "\<bar>n\<bar> \<le> 9007199254740991"
  shows "ToString (js_int n) = js (decimal n)"
proof -
  have "nat \<bar>n\<bar> < 9007199254740992"
    using assms by simp
  then have u: "unat (of_nat (nat \<bar>n\<bar>) :: 53 word) = nat \<bar>n\<bar>"
    by (rule unat_of_nat_53)
  then have z: "(of_nat (nat \<bar>n\<bar>) :: 53 word) = 0 \<longleftrightarrow> n = 0"
    by (metis abs_eq_0 nat_0_iff abs_ge_zero unat_eq_0 order_antisym)
  show ?thesis
    unfolding js_int_def decimal_def ToString.simps u z by auto
qed

lemma truthy_js_int:
  assumes "\<bar>n\<bar> \<le> 9007199254740991"
  shows "truthy (js_int n) \<longleftrightarrow> n \<noteq> 0"
proof -
  have "nat \<bar>n\<bar> < 9007199254740992"
    using assms by simp
  then have u: "unat (of_nat (nat \<bar>n\<bar>) :: 53 word) = nat \<bar>n\<bar>"
    by (rule unat_of_nat_53)
  then have "(of_nat (nat \<bar>n\<bar>) :: 53 word) = 0 \<longleftrightarrow> n = 0"
    by (metis abs_eq_0 nat_0_iff abs_ge_zero unat_eq_0 order_antisym)
  then show ?thesis
    unfolding js_int_def truthy.simps by simp
qed

section \<open>Facts about validation and the probe\<close>

lemma probe_supports_cases:
  "probe_supports env lc =
    (if lc = js ''mp3'' then truthy (probe env ''audio/mpeg'')
     else if lc = js ''wav'' then truthy (probe env ''audio/wav'')
     else if lc = js ''aac'' then truthy (probe env ''audio/aac'')
     else if lc = js ''ogg'' then truthy (probe env ''audio/ogg'')
     else if lc = js ''caf'' then truthy (probe env ''audio/x-caf'')
     else False)"
  by (simp add: probe_supports_def codec_table_def probe_def js_inject)

lemma validate_missing:
  "\<not> required_present s \<Longrightarrow> validate env (Some s) = Inl (missing_field_error s)"
  by (auto simp: validate_def required_present_def missing_field_error_def)

lemma missing_field_error_invalid: "invalid_request (missing_field_error s)"
  by (simp add: invalid_request_def missing_field_error_def)

lemma validate_string_codec:
  assumes "required_present s" "c s = JStr name" "name \<noteq> []"
  shows "validate env (Some s) =
           (if String_toLowerCase name = js ''auto'' \<or> probe_supports env (String_toLowerCase name)
            then Inr s
            else Inl (Error (js ''The browser does not support the audio codec '' @ name)))"
  using assms by (simp add: validate_def required_present_def probe_supports_cases Let_def)

lemma validate_falsy_codec:
  assumes "required_present s" "\<not> truthy (c s)"
  shows "validate env (Some s) = Inr s"
  using assms by (simp add: validate_def required_present_def)

lemma validate_other_codec:
  assumes "required_present s" "truthy (c s)" "\<forall>name. c s \<noteq> JStr name"
  shows "validate env (Some s) = Inl (TypeError (js ''toLowerCase is not a function''))"
  using assms by (cases "c s") (simp_all add: validate_def required_present_def)

text \<open>
  The settings that pass validation: the three required fields truthy, and the codec
  either left to the client or an explicit one that the probe supports.
\<close>

lemma validate_Inr:
  "validate env (Some s) = Inr s' \<longleftrightarrow>
     s' = s \<and> required_present s
     \<and> (automatic_codec s
        \<or> (\<exists>name. explicit_codec s name \<and> probe_supports env (String_toLowerCase name)))"
proof (cases "required_present s")
  case False
  then show ?thesis by (auto simp: validate_missing)
next
  case True
  show ?thesis
  proof (cases "c s")
    case (JStr name)
    show ?thesis
    proof (cases "name = []")
      case True
      with JStr \<open>required_present s\<close> show ?thesis
        by (auto simp: validate_falsy_codec automatic_codec_def)
    next
      case False
      with JStr True show ?thesis
        by (auto simp: validate_string_codec automatic_codec_def explicit_codec_def)
    qed
  next
    case JUndefined
    with True show ?thesis by (auto simp: validate_falsy_codec automatic_codec_def)
  next
    case JNull
    with True show ?thesis by (auto simp: validate_falsy_codec automatic_codec_def)
  next
    case (JBool b)
    with True show ?thesis
      by (cases b)
        (auto simp: validate_falsy_codec validate_other_codec automatic_codec_def explicit_codec_def)
  next
    case (JInt neg m)
    with True show ?thesis
      by (cases "m = 0")
        (auto simp: validate_falsy_codec validate_other_codec automatic_codec_def explicit_codec_def)
  next
    case (JNumber t)
    with True show ?thesis
      by (cases "t = js ''NaN''")
        (auto simp: validate_falsy_codec validate_other_codec automatic_codec_def explicit_codec_def)
  qed
qed

lemma supported_name_in_table:
  "probe_supports env name \<Longrightarrow> name \<in> set (map fst codec_table)"
  by (simp add: probe_supports_cases codec_table_def split: if_splits)

lemma validated_explicit_codec:
  assumes "validate env (Some s) = Inr s'" and "explicit_codec s name"
  shows "probe_supports env (String_toLowerCase name)"
proof -
  from assms(2) have cs: "c s = JStr name" "name \<noteq> []" "String_toLowerCase name \<noteq> js ''auto''"
    by (simp_all add: explicit_codec_def)
  then have "\<not> automatic_codec s"
    by (simp add: automatic_codec_def)
  with assms(1) obtain name' where
    "explicit_codec s name'" "probe_supports env (String_toLowerCase name')"
    unfolding validate_Inr by blast
  with cs(1) show ?thesis
    by (simp add: explicit_codec_def)
qed

section \<open>Facts about the codec\<close>

lemma js_unreserved_lowercase_letters:
  "list_all unreserved (js ''mp3'')" "list_all unreserved (js ''wav'')"
  "list_all unreserved (js ''aac'')" "list_all unreserved (js ''ogg'')"
  "list_all unreserved (js ''caf'')"
  by (simp_all add: js_def unreserved_def)

lemma codec_names_unreserved:
  "name \<in> set (map fst codec_table) \<Longrightarrow> list_all unreserved name"
  using js_unreserved_lowercase_letters by (auto simp: codec_table_def)

lemma detectCodec_first_supported: "detectCodec env = first_supported env"
  by (simp add: detectCodec_def first_supported_def codec_table_def probe_supports_cases js_inject)

lemma first_supported_range:
  "first_supported env = [] \<or> first_supported env \<in> set (map fst codec_table)"
  by (simp add: first_supported_def codec_table_def probe_supports_cases js_inject)

lemma first_supported_unreserved: "list_all unreserved (first_supported env)"
  using first_supported_range [of env] codec_names_unreserved by auto

lemma chosen_codec_automatic:
  "automatic_codec s \<Longrightarrow> chosen_codec env s = Inr (JStr (first_supported env))"
  by (cases "c s") (auto simp: automatic_codec_def chosen_codec_def detectCodec_first_supported)

lemma chosen_codec_explicit:
  "explicit_codec s name \<Longrightarrow> chosen_codec env s = Inr (JStr name)"
  by (simp add: explicit_codec_def chosen_codec_def)

lemma chosen_codec_validated:
  assumes "validate env (Some s) = Inr s'"
  shows "chosen_codec env s = Inr (if automatic_codec s then JStr (first_supported env) else c s)"
proof (cases "automatic_codec s")
  case True
  then show ?thesis
    by (simp add: chosen_codec_automatic)
next
  case False
  with assms obtain name where "explicit_codec s name"
    unfolding validate_Inr by blast
  then have "chosen_codec env s = Inr (JStr name)" "c s = JStr name"
    by (simp_all add: chosen_codec_explicit explicit_codec_def)
  with False show ?thesis
    by simp
qed

text \<open>The codec that validated settings send is made of letters and digits.\<close>

lemma validated_codec_unreserved:
  assumes "validate env (Some s) = Inr s'"
  shows "list_all unreserved
           (field_text (if automatic_codec s then JStr (first_supported env) else c s))"
proof (cases "automatic_codec s")
  case True
  then show ?thesis
    by (simp add: field_text_def first_supported_unreserved)
next
  case False
  with assms obtain name where e: "explicit_codec s name"
    unfolding validate_Inr by blast
  have "String_toLowerCase name \<in> set (map fst codec_table)"
    using validated_explicit_codec [OF assms e] by (rule supported_name_in_table)
  then have "list_all unreserved (String_toLowerCase name)"
    by (rule codec_names_unreserved)
  then have "list_all unreserved name"
    by (rule toLowerCase_unreserved)
  with e False show ?thesis
    by (simp add: explicit_codec_def field_text_def)
qed

section \<open>Facts about the request body\<close>

lemma encode_field_eq: "encode_field v = encodeURIComponent (field_text v)"
  by (simp add: encode_field_def js_or_def field_text_def)

lemma case_encodeURIComponent:
  "(case encodeURIComponent t of Inl e \<Rightarrow> Inl e | Inr v \<Rightarrow> g v) =
     (if well_formed t then g (encoded t) else Inl (URIError (js ''URI malformed'')))"
  by (simp add: encoded_Inr encodeURIComponent_ill_formed)

text \<open>
  What \<^verbatim>\<open>_buildRequest\<close> gives once the codec is chosen: the body when every text is
  well formed, a URIError otherwise.
\<close>

lemma buildRequest_eq:
  assumes "chosen_codec env s = Inr codec"
  shows "buildRequest env s =
           (if texts_well_formed s \<and> well_formed (field_text codec)
            then Inr (''key='' @ encoded (field_text (key s))
                      @ ''&src='' @ encoded (field_text (src s))
                      @ ''&hl='' @ encoded (field_text (hl s))
                      @ ''&r='' @ encoded (field_text (r s))
                      @ ''&c='' @ encoded (field_text codec)
                      @ ''&f='' @ encoded (field_text (f s))
                      @ ''&ssml='' @ encoded (field_text (ssml s))
                      @ ''&b64=true'')
            else Inl (URIError (js ''URI malformed'')))"
  unfolding buildRequest_def assms sum.case encode_field_eq case_encodeURIComponent
    texts_well_formed_def
  by simp

lemma encoded_no_separator: "CHR ''&'' \<notin> set (encoded t)"
proof (cases "well_formed t")
  case True
  then show ?thesis
    using encodeURIComponent_no_separator [OF encoded_Inr] by simp
next
  case False
  then show ?thesis
    by (simp add: encoded_def encodeURIComponent_ill_formed)
qed

lemma buildRequest_fields:
  assumes "chosen_codec env s = Inr codec" and "buildRequest env s = Inr body"
  shows "form_fields body =
         [(''key'', encoded (field_text (key s))),
          (''src'', encoded (field_text (src s))),
          (''hl'', encoded (field_text (hl s))),
          (''r'', encoded (field_text (r s))),
          (''c'', encoded (field_text codec)),
          (''f'', encoded (field_text (f s))),
          (''ssml'', encoded (field_text (ssml s))),
          (''b64'', ''true'')]"
proof -
  from assms have "body = ''key='' @ encoded (field_text (key s))
                      @ ''&src='' @ encoded (field_text (src s))
                      @ ''&hl='' @ encoded (field_text (hl s))
                      @ ''&r='' @ encoded (field_text (r s))
                      @ ''&c='' @ encoded (field_text codec)
                      @ ''&f='' @ encoded (field_text (f s))
                      @ ''&ssml='' @ encoded (field_text (ssml s))
                      @ ''&b64=true''"
    by (simp add: buildRequest_eq split: if_splits)
  then show ?thesis
    by (simp only: form_fields_of_body [OF encoded_no_separator encoded_no_separator
          encoded_no_separator encoded_no_separator encoded_no_separator encoded_no_separator
          encoded_no_separator])
qed

lemma buildRequest_Inr_codec:
  "buildRequest env s = Inr body \<Longrightarrow> \<exists>codec. chosen_codec env s = Inr codec"
  by (cases "chosen_codec env s") (simp_all add: buildRequest_def)

lemma buildRequest_well_formed:
  assumes "chosen_codec env s = Inr codec" and "buildRequest env s = Inr body"
  shows "texts_well_formed s" and "well_formed (field_text codec)"
  using assms by (simp_all add: buildRequest_eq split: if_splits)

lemma buildRequest_codec_field:
  assumes "chosen_codec env s = Inr codec" and "buildRequest env s = Inr body"
  shows "form_field body ''c'' = Some (encoded (field_text codec))"
  unfolding form_field_def buildRequest_fields [OF assms] by simp

lemma buildRequest_rate_field:
  assumes "buildRequest env s = Inr body"
  shows "form_field body ''r'' = Some (encoded (field_text (r s)))"
proof -
  from buildRequest_Inr_codec [OF assms] obtain codec where "chosen_codec env s = Inr codec"
    by blast
  from buildRequest_fields [OF this assms] show ?thesis
    unfolding form_field_def by simp
qed

lemma encoded_unreserved: "list_all unreserved t \<Longrightarrow> encoded t = map ascii_char t"
  by (simp add: encoded_def encodeURIComponent_unreserved)

lemma encoded_js_unreserved: "list_all unreserved (js a) \<Longrightarrow> encoded (js a) = a"
  by (simp add: encoded_unreserved ascii_char_js)

lemma js_encoded_unreserved: "list_all unreserved t \<Longrightarrow> js (encoded t) = t"
proof (induction t)
  case Nil
  show ?case by (simp add: encoded_unreserved js_def)
next
  case (Cons u t)
  then have "unat u < 256"
    using unreserved_ascii [of u] by simp
  with Cons show ?case
    by (simp add: encoded_unreserved js_Cons js_unit_ascii_char)
qed

section \<open>Facts about the call\<close>

lemma request_sends:
  "buildRequest env s = Inr body \<Longrightarrow>
   request env s w =
     (case getXHR env of
        Inl e \<Rightarrow> (Threw e, w)
      | Inr xhr \<Rightarrow> (Returned, w\<lparr>sent := sent w @ [post xhr body]\<rparr>))"
  by (simp add: request_def)

lemma speech_valid:
  assumes "validate env (Some s) = Inr s'" and "buildRequest env s = Inr body"
  shows "speech env (Some s) w =
           (case getXHR env of
              Inl e \<Rightarrow> (Threw e, w)
            | Inr xhr \<Rightarrow> (Returned, w\<lparr>sent := sent w @ [post xhr body]\<rparr>))"
proof -
  from assms(1) have "s' = s"
    by (simp add: validate_Inr)
  with assms show ?thesis
    by (simp add: speech_def request_sends)
qed

lemma speech_URIError:
  assumes "validate env (Some s) = Inr s'" and "buildRequest env s = Inl e"
  shows "speech env (Some s) w = (Threw e, w)"
proof -
  from assms(1) have "s' = s"
    by (simp add: validate_Inr)
  with assms show ?thesis
    by (simp add: speech_def request_def)
qed

lemma speech_invalid:
  "validate env (Some s) = Inl e \<Longrightarrow> speech env (Some s) w = (Threw e, w)"
  by (simp add: speech_def)

section \<open>Facts about the settings of the controller and the browsers\<close>

lemma lower_mp3: "String_toLowerCase (js ''mp3'') = js ''mp3''"
  by (simp add: String_toLowerCase_def js_def lower_unit_def)

lemma lower_OGG: "String_toLowerCase (js ''OGG'') = js ''ogg''"
  by (simp add: String_toLowerCase_def js_def lower_unit_def)

lemma lower_Auto: "String_toLowerCase (js ''Auto'') = js ''auto''"
  by (simp add: String_toLowerCase_def js_def lower_unit_def)

lemma lower_FLAC: "String_toLowerCase (js ''FLAC'') = js ''flac''"
  by (simp add: String_toLowerCase_def js_def lower_unit_def)

lemma joke_settings_explicit: "explicit_codec (joke_settings joke) (js ''mp3'')"
  by (simp add: explicit_codec_def joke_settings_def lower_mp3 js_inject js_eq_Nil)

lemma joke_settings_required: "required_present (joke_settings joke) \<longleftrightarrow> truthy joke"
  by (simp add: required_present_def joke_settings_def js_eq_Nil)

lemma probe_modern:
  "probe_supports modern_browser (js ''mp3'')" "probe_supports modern_browser (js ''ogg'')"
  "\<not> probe_supports modern_browser (js ''wav'')"
  by (simp_all add: probe_supports_cases probe_def modern_browser_def js_inject js_def)

lemma probe_offline: "probe_supports offline_browser (js ''mp3'')"
  by (simp add: probe_supports_cases probe_def offline_browser_def js_def)

lemma probe_mute: "\<not> probe_supports mute_browser name"
  by (simp add: probe_supports_cases probe_def mute_browser_def)

lemma probe_bare: "\<not> probe_supports bare_browser name"
  by (simp add: probe_supports_cases probe_def bare_browser_def)

lemma first_supported_mute: "first_supported mute_browser = []"
  by (simp add: first_supported_def probe_mute)

lemma first_supported_bare: "first_supported bare_browser = []"
  by (simp add: first_supported_def probe_bare)

lemma getXHR_fixtures:
  "getXHR modern_browser = Inr ''XMLHttpRequest''"
  "getXHR mute_browser = Inr ''XMLHttpRequest''"
  "getXHR offline_browser = Inl (Error (js ''The browser does not support HTTP request''))"
  "getXHR bare_browser = Inl (Error (js ''The browser does not support HTTP request''))"
  by (simp_all add: getXHR_def modern_browser_def mute_browser_def offline_browser_def
      bare_browser_def)

lemma truthy_fixtures: "truthy a_joke" "truthy broken_joke" "truthy ten_to_21"
  by (simp_all add: a_joke_def broken_joke_def ten_to_21_def js_def)

lemma encoded_fixtures:
  "encoded (js ''YOUR API'') = ''YOUR%20API''"
  "encoded (js ''Knock knock?'') = ''Knock%20knock%3F''"
  "encoded (js ''en-us'') = ''en-us''"
  "encoded (js ''mp3'') = ''mp3''"
  "encoded (js ''OGG'') = ''OGG''"
  "encoded (js ''44khz_16bit_stereo'') = ''44khz_16bit_stereo''"
  "encoded (js ''1e+21'') = ''1e%2B21''"
  "encoded (js ''-12'') = ''-12''"
  "encoded [] = []"
  by (simp_all add: encoded_def js_def unreserved_def ascii_char_def prepend_def escape_def
      utf8_octets_def percent_byte_def hex_digit_def low_surrogate_def high_surrogate_def
      char_of_eq_iff)

lemma well_formed_fixtures:
  "well_formed (js ''YOUR API'')" "well_formed (js ''Knock knock?'')"
  "well_formed (js ''en-us'')" "well_formed (js ''44khz_16bit_stereo'')"
  "well_formed (js ''1e+21'')" "well_formed (js ''-12'')" "well_formed []"
  "well_formed (js ''mp3'')" "well_formed (js ''OGG'')"
  "\<not> well_formed (js ''joke '' @ [55296])"
  by (simp_all add: js_def low_surrogate_def high_surrogate_def)

lemma field_text_fixtures:
  "field_text (JStr (js ''YOUR API'')) = js ''YOUR API''"
  "field_text (JStr (js ''en-us'')) = js ''en-us''"
  "field_text (JStr (js ''44khz_16bit_stereo'')) = js ''44khz_16bit_stereo''"
  "field_text (JStr (js ''mp3'')) = js ''mp3''"
  "field_text (JStr (js ''OGG'')) = js ''OGG''"
  "field_text (JInt False 0) = []" "field_text JUndefined = []" "field_text (JStr []) = []"
  "field_text a_joke = js ''Knock knock?''"
  "field_text broken_joke = js ''joke '' @ [55296]"
  "field_text ten_to_21 = js ''1e+21''"
  by (simp_all add: field_text_def js_eq_Nil a_joke_def broken_joke_def ten_to_21_def js_inject)

lemma joke_settings_well_formed:
  "texts_well_formed (joke_settings joke) \<longleftrightarrow> well_formed (field_text joke)"
  by (simp add: texts_well_formed_def joke_settings_def field_text_fixtures well_formed_fixtures)

section \<open>Validation of the required fields\<close>

text \<open>
  C1. When the key, the text (src) or the language (hl) of the settings is absent or
  empty (or any other falsy value), \<^verbatim>\<open>speech\<close> throws one of the three errors about a
  missing field. The error is the one validation raises, whatever the browser is; the
  page and the list of requests sent are as before the call, so the throw comes before
  \<^verbatim>\<open>_request\<close> builds a body or sends anything.
\<close>

theorem speech_rejects_missing_field:
  assumes "\<not> truthy (key s) \<or> \<not> truthy (src s) \<or> \<not> truthy (hl s)"
  shows "\<exists>e. invalid_request e \<and> validate env (Some s) = Inl e
            \<and> speech env (Some s) w = (Threw e, w)"
proof -
  from assms have "\<not> required_present s"
    by (auto simp: required_present_def)
  then have v: "validate env (Some s) = Inl (missing_field_error s)"
    by (rule validate_missing)
  then have "speech env (Some s) w = (Threw (missing_field_error s), w)"
    by (rule speech_invalid)
  with v missing_field_error_invalid show ?thesis
    by blast
qed

theorem speech_rejects_missing_field_witness:
  "speech offline_browser (Some ((joke_settings a_joke)\<lparr>src := JStr []\<rparr>)) joke_page
     = (Threw (Error (js ''The text is undefined'')), joke_page)"
proof -
  let ?s = "(joke_settings a_joke)\<lparr>src := JStr []\<rparr>"
  have "\<not> truthy (key ?s) \<or> \<not> truthy (src ?s) \<or> \<not> truthy (hl ?s)"
    by (simp add: joke_settings_def)
  from speech_rejects_missing_field [OF this, of offline_browser joke_page]
  obtain e where v: "validate offline_browser (Some ?s) = Inl e"
    and sp: "speech offline_browser (Some ?s) joke_page = (Threw e, joke_page)"
    by blast
  have "validate offline_browser (Some ?s) = Inl (Error (js ''The text is undefined''))"
    by (simp add: validate_def joke_settings_def js_eq_Nil)
  with v have "e = Error (js ''The text is undefined'')"
    by simp
  with sp show ?thesis
    by simp
qed

section \<open>Validation of the codec\<close>

text \<open>
  What validation does with an explicit codec that is not accepted, whatever else the
  settings hold: it throws, and \<^verbatim>\<open>speech\<close> with it, leaving the page and the requests
  sent as they were. The error is the one about the codec when the three required
  fields are present; when one is missing, the tests of lines 99 to 101 come first and
  the error is the one about the first missing field.
\<close>

lemma rejected_codec:
  assumes "explicit_codec s name" and "\<not> probe_supports env (String_toLowerCase name)"
  shows "validate env (Some s) =
           Inl (if required_present s
                then Error (js ''The browser does not support the audio codec '' @ name)
                else missing_field_error s)"
proof (cases "required_present s")
  case True
  from assms(1) have "c s = JStr name" "name \<noteq> []" "String_toLowerCase name \<noteq> js ''auto''"
    by (simp_all add: explicit_codec_def)
  with True assms(2) show ?thesis
    by (simp add: validate_string_codec)
next
  case False
  then show ?thesis
    by (simp add: validate_missing)
qed

lemma codec_error_unsupported:
  "unsupported_codec (Error (js ''The browser does not support the audio codec '' @ name))"
  by (simp add: unsupported_codec_def)

text \<open>
  C2. When the codec is an explicit one (a non-empty string other than auto) that the
  capability probe does not support, \<^verbatim>\<open>speech\<close> throws during validation: the page and
  the list of requests sent are as before the call, and only the answers of
  \<^verbatim>\<open>canPlayType\<close> are consulted. With the three required fields present the error is the
  one about the unsupported codec. Where a required field is missing, validation has
  thrown the error about that field before it comes to the codec (C1).
\<close>

theorem speech_rejects_unsupported_codec:
  assumes "explicit_codec s name"
    and "\<not> probe_supports env (String_toLowerCase name)"
  shows "\<exists>e. validate env (Some s) = Inl e \<and> speech env (Some s) w = (Threw e, w)
           \<and> (required_present s \<longrightarrow>
                e = Error (js ''The browser does not support the audio codec '' @ name)
                \<and> unsupported_codec e)
           \<and> (\<not> required_present s \<longrightarrow> e = missing_field_error s \<and> invalid_request e)"
proof -
  let ?e = "if required_present s
            then Error (js ''The browser does not support the audio codec '' @ name)
            else missing_field_error s"
  have v: "validate env (Some s) = Inl ?e"
    using assms by (rule rejected_codec)
  then have "speech env (Some s) w = (Threw ?e, w)"
    by (rule speech_invalid)
  with v show ?thesis
    by (auto simp: codec_error_unsupported missing_field_error_invalid)
qed

theorem speech_rejects_unsupported_codec_witness:
  "speech mute_browser (Some (joke_settings a_joke)) joke_page
     = (Threw (Error (js ''The browser does not support the audio codec '' @ js ''mp3'')), joke_page)
   \<and> speech mute_browser (Some ((joke_settings a_joke)\<lparr>key := JStr []\<rparr>)) joke_page
     = (Threw (Error (js ''The API key is undefined'')), joke_page)"
proof -
  let ?s = "joke_settings a_joke"
  let ?t = "(joke_settings a_joke)\<lparr>key := JStr []\<rparr>"
  have e: "explicit_codec ?s (js ''mp3'')"
    by (rule joke_settings_explicit)
  have e': "explicit_codec ?t (js ''mp3'')"
    using e by (simp add: explicit_codec_def)
  have p: "\<not> probe_supports mute_browser (String_toLowerCase (js ''mp3''))"
    by (rule probe_mute)
  have r: "required_present ?s"
    by (simp add: joke_settings_required truthy_fixtures)
  have r': "\<not> required_present ?t"
    by (simp add: required_present_def)
  have m: "missing_field_error ?t = Error (js ''The API key is undefined'')"
    by (simp add: missing_field_error_def)
  from speech_rejects_unsupported_codec [OF e p, of joke_page] r
  have "speech mute_browser (Some ?s) joke_page
     = (Threw (Error (js ''The browser does not support the audio codec '' @ js ''mp3'')), joke_page)"
    by auto
  moreover from speech_rejects_unsupported_codec [OF e' p, of joke_page] r' m
  have "speech mute_browser (Some ?t) joke_page
     = (Threw (Error (js ''The API key is undefined'')), joke_page)"
    by auto
  ultimately show ?thesis
    by simp
qed

text \<open>
  C10. An explicit codec whose lower-case form is not a name of the enumeration never
  passes validation, whatever the browser answers: \<^verbatim>\<open>speech\<close> throws out of validation
  and \<^verbatim>\<open>_request\<close> is not reached. With the three required fields present the error is
  the one about the unsupported codec. Where a required field is missing, validation
  has thrown the error about that field before it comes to the codec (C1).
\<close>

theorem unknown_codec_never_validates:
  assumes "explicit_codec s name"
    and "String_toLowerCase name \<notin> set (map fst codec_table)"
  shows "\<exists>e. validate env (Some s) = Inl e \<and> speech env (Some s) w = (Threw e, w)
           \<and> (required_present s \<longrightarrow>
                e = Error (js ''The browser does not support the audio codec '' @ name)
                \<and> unsupported_codec e)
           \<and> (\<not> required_present s \<longrightarrow> e = missing_field_error s \<and> invalid_request e)"
proof -
  let ?e = "if required_present s
            then Error (js ''The browser does not support the audio codec '' @ name)
            else missing_field_error s"
  from assms(2) have "\<not> probe_supports env (String_toLowerCase name)"
    using supported_name_in_table by blast
  with assms(1) have v: "validate env (Some s) = Inl ?e"
    by (rule rejected_codec)
  then have "speech env (Some s) w = (Threw ?e, w)"
    by (rule speech_invalid)
  with v show ?thesis
    by (auto simp: codec_error_unsupported missing_field_error_invalid)
qed

theorem unknown_codec_never_validates_witness:
  "speech modern_browser (Some ((joke_settings a_joke)\<lparr>c := JStr (js ''FLAC'')\<rparr>)) joke_page
     = (Threw (Error (js ''The browser does not support the audio codec '' @ js ''FLAC'')), joke_page)
   \<and> speech modern_browser
        (Some ((joke_settings a_joke)\<lparr>c := JStr (js ''FLAC''), hl := JUndefined\<rparr>)) joke_page
     = (Threw (Error (js ''The language is undefined'')), joke_page)"
proof -
  let ?s = "(joke_settings a_joke)\<lparr>c := JStr (js ''FLAC'')\<rparr>"
  let ?t = "(joke_settings a_joke)\<lparr>c := JStr (js ''FLAC''), hl := JUndefined\<rparr>"
  have e: "explicit_codec ?s (js ''FLAC'')" "explicit_codec ?t (js ''FLAC'')"
    by (simp_all add: explicit_codec_def lower_FLAC js_inject js_eq_Nil)
  have n: "String_toLowerCase (js ''FLAC'') \<notin> set (map fst codec_table)"
    by (simp add: codec_table_def lower_FLAC js_inject)
  have r: "required_present ?s"
    by (simp add: required_present_def joke_settings_def truthy_fixtures js_eq_Nil)
  have r': "\<not> required_present ?t"
    by (simp add: required_present_def)
  have m: "missing_field_error ?t = Error (js ''The language is undefined'')"
    by (simp add: missing_field_error_def joke_settings_def truthy_fixtures js_eq_Nil)
  from unknown_codec_never_validates [OF e(1) n, of modern_browser joke_page] r
  have "speech modern_browser (Some ?s) joke_page
     = (Threw (Error (js ''The browser does not support the audio codec '' @ js ''FLAC'')), joke_page)"
    by auto
  moreover from unknown_codec_never_validates [OF e(2) n, of modern_browser joke_page] r' m
  have "speech modern_browser (Some ?t) joke_page
     = (Threw (Error (js ''The language is undefined'')), joke_page)"
    by auto
  ultimately show ?thesis
    by simp
qed

section \<open>Facts about the handler of the response and the controller\<close>

lemma audio_response_plays:
  assumes "readyState xhr = 4" "status xhr = 200" "\<not> prefix (js ''ERROR'') (responseText xhr)"
    and "audio w = Some a"
  shows "fst (onreadystatechange env xhr w) = Returned"
    and "audio (snd (onreadystatechange env xhr w))
           = Some (a\<lparr>audio_src := responseText xhr, plays := plays a + 1\<rparr>)"
  using assms
  by (simp_all add: onreadystatechange_def String_indexOf_0 Let_def split: option.splits)

lemma speech_completion:
  "fst (speech env so w) = fst (speech env so w0)"
  by (simp add: speech_def request_def split: sum.splits)

lemma speech_page:
  "button_disabled (snd (speech env so w)) = button_disabled w"
  "joke_text (snd (speech env so w)) = joke_text w"
  "alerts (snd (speech env so w)) = alerts w"
  "console (snd (speech env so w)) = console w"
  "audio (snd (speech env so w)) = audio w"
  by (simp_all add: speech_def request_def split: sum.splits)

lemma speech_throws_sends_nothing:
  "fst (speech env so w) = Threw e \<Longrightarrow> snd (speech env so w) = w"
  by (simp add: speech_def request_def split: sum.splits)

lemma onreadystatechange_page:
  "button_disabled (snd (onreadystatechange env xhr w)) = button_disabled w"
  "joke_text (snd (onreadystatechange env xhr w)) = joke_text w"
  "alerts (snd (onreadystatechange env xhr w)) = alerts w"
  "sent (snd (onreadystatechange env xhr w)) = sent w"
  by (simp_all add: onreadystatechange_def Let_def split: option.splits)

lemma try_block_joke:
  assumes "joke_text w = Some old"
  shows "try_block env (JsonValue (Some joke)) w =
           speech env (Some (joke_settings joke))
             (w\<lparr>button_disabled := True, joke_text := Some (textContent_string joke)\<rparr>)"
  using assms by (simp add: try_block_def set_textContent_def fetchJoke_def)

lemma cycle_speech_returns:
  assumes "joke_text w = Some old"
    and "fst (speech env (Some (joke_settings joke)) w) = Returned"
  shows "fst (handleJokeButtonClick env (JsonValue (Some joke)) w) = Returned"
    and "alerts (snd (handleJokeButtonClick env (JsonValue (Some joke)) w)) = alerts w"
    and "joke_text (snd (handleJokeButtonClick env (JsonValue (Some joke)) w))
           = Some (textContent_string joke)"
proof -
  let ?w1 = "w\<lparr>button_disabled := True, joke_text := Some (textContent_string joke)\<rparr>"
  obtain res w2 where sp: "speech env (Some (joke_settings joke)) ?w1 = (res, w2)"
    by (cases "speech env (Some (joke_settings joke)) ?w1")
  have "res = Returned"
    using speech_completion [of env "Some (joke_settings joke)" ?w1 w] sp assms(2) by simp
  with sp assms(1) have h: "handleJokeButtonClick env (JsonValue (Some joke)) w = (Returned, finally_block w2)"
    by (simp add: handleJokeButtonClick_def try_block_joke)
  have "alerts w2 = alerts ?w1" "joke_text w2 = joke_text ?w1"
    using speech_page(2,3) [of env "Some (joke_settings joke)" ?w1] sp by simp_all
  with h show "fst (handleJokeButtonClick env (JsonValue (Some joke)) w) = Returned"
    and "alerts (snd (handleJokeButtonClick env (JsonValue (Some joke)) w)) = alerts w"
    and "joke_text (snd (handleJokeButtonClick env (JsonValue (Some joke)) w))
           = Some (textContent_string joke)"
    by (simp_all add: finally_block_def)
qed

lemma cycle_speech_throws:
  assumes "joke_text w = Some old"
    and "fst (speech env (Some (joke_settings joke)) w) = Threw e"
  shows "alerts (snd (handleJokeButtonClick env (JsonValue (Some joke)) w))
           = alerts w @ [''Sorry, we couldn't fetch a joke. Please try again later.'']"
    and "joke_text (snd (handleJokeButtonClick env (JsonValue (Some joke)) w)) = Some []"
    and "console (snd (handleJokeButtonClick env (JsonValue (Some joke)) w))
           = console w @ [(''Error processing the joke:'', exn_message e)]"
    and "sent (snd (handleJokeButtonClick env (JsonValue (Some joke)) w)) = sent w"
proof -
  let ?w1 = "w\<lparr>button_disabled := True, joke_text := Some (textContent_string joke)\<rparr>"
  have f: "fst (speech env (Some (joke_settings joke)) ?w1) = Threw e"
    using speech_completion [of env "Some (joke_settings joke)" ?w1 w] assms(2) by simp
  then have "snd (speech env (Some (joke_settings joke)) ?w1) = ?w1"
    by (rule speech_throws_sends_nothing)
  with f have sp: "speech env (Some (joke_settings joke)) ?w1 = (Threw e, ?w1)"
    by (simp add: prod_eq_iff)
  with assms(1) have h: "handleJokeButtonClick env (JsonValue (Some joke)) w
      = (case catch_block e ?w1 of (res, w2) \<Rightarrow> (res, finally_block w2))"
    by (simp add: handleJokeButtonClick_def try_block_joke)
  show "alerts (snd (handleJokeButtonClick env (JsonValue (Some joke)) w))
           = alerts w @ [''Sorry, we couldn't fetch a joke. Please try again later.'']"
    and "joke_text (snd (handleJokeButtonClick env (JsonValue (Some joke)) w)) = Some []"
    and "console (snd (handleJokeButtonClick env (JsonValue (Some joke)) w))
           = console w @ [(''Error processing the joke:'', exn_message e)]"
    and "sent (snd (handleJokeButtonClick env (JsonValue (Some joke)) w)) = sent w"
    unfolding h
    by (simp_all add: catch_block_def set_textContent_def finally_block_def Let_def textContent_string_def)
qed

text \<open>
  Two runs that end in the catch block: the page has no text element, so that the try
  block and then the catch block throw; and the fetch is rejected.
\<close>

lemma cycle_without_text_element:
  assumes "joke_text w = None"
  shows "handleJokeButtonClick env reply w =
           (Threw (TypeError (js ''jokeTextElement is null'')),
            w\<lparr>button_disabled := False,
              console := console w @ [(''Error processing the joke:'', js ''jokeTextElement is null'')],
              alerts := alerts w @ [''Sorry, we couldn't fetch a joke. Please try again later.'']\<rparr>)"
  using assms
  by (simp add: handleJokeButtonClick_def try_block_def catch_block_def finally_block_def
      set_textContent_def exn_message_def Let_def)

lemma cycle_fetch_fails:
  assumes "joke_text w = Some old"
  shows "handleJokeButtonClick env (FetchRejected err) w =
           (Returned,
            w\<lparr>button_disabled := False, joke_text := Some [],
              console := console w @ [(''Error fetching joke:'', err),
                                      (''Error processing the joke:'', js ''Failed to fetch a joke.'')],
              alerts := alerts w @ [''Sorry, we couldn't fetch a joke. Please try again later.'']\<rparr>)"
  using assms
  by (simp add: handleJokeButtonClick_def try_block_def catch_block_def finally_block_def
      set_textContent_def fetchJoke_def exn_message_def textContent_string_def Let_def)

section \<open>Facts about what a valid call sends\<close>

lemma getXHR_cases:
  "can_construct env \<Longrightarrow> \<exists>xhr. getXHR env = Inr xhr"
  "\<not> can_construct env \<Longrightarrow>
     getXHR env = Inl (Error (js ''The browser does not support HTTP request''))"
  by (auto simp: can_construct_def getXHR_def)

lemma speech_sends:
  assumes "validate env (Some s) = Inr s'" and "buildRequest env s = Inr body"
  shows "can_construct env \<Longrightarrow>
           \<exists>xhr. speech env (Some s) w =
             (Returned,
              w\<lparr>sent := sent w @
                 [\<lparr>transport = xhr, req_method = ''POST'', req_url = ''https://api.voicerss.org/'',
                   req_async = True,
                   req_headers =
                     [(''Content-Type'', ''application/x-www-form-urlencoded; charset=UTF-8'')],
                   req_body = body\<rparr>]\<rparr>)"
    and "\<not> can_construct env \<Longrightarrow>
           speech env (Some s) w =
             (Threw (Error (js ''The browser does not support HTTP request'')), w)"
proof -
  have sp: "speech env (Some s) w =
           (case getXHR env of
              Inl e \<Rightarrow> (Threw e, w)
            | Inr xhr \<Rightarrow> (Returned, w\<lparr>sent := sent w @ [post xhr body]\<rparr>))"
    using assms by (rule speech_valid)
  show "\<exists>xhr. speech env (Some s) w =
             (Returned,
              w\<lparr>sent := sent w @
                 [\<lparr>transport = xhr, req_method = ''POST'', req_url = ''https://api.voicerss.org/'',
                   req_async = True,
                   req_headers =
                     [(''Content-Type'', ''application/x-www-form-urlencoded; charset=UTF-8'')],
                   req_body = body\<rparr>]\<rparr>)"
    if "can_construct env"
  proof -
    from that obtain xhr where x: "getXHR env = Inr xhr"
      using getXHR_cases(1) by blast
    show ?thesis
    proof (rule exI)
      show "speech env (Some s) w =
             (Returned,
              w\<lparr>sent := sent w @
                 [\<lparr>transport = xhr, req_method = ''POST'', req_url = ''https://api.voicerss.org/'',
                   req_async = True,
                   req_headers =
                     [(''Content-Type'', ''application/x-www-form-urlencoded; charset=UTF-8'')],
                   req_body = body\<rparr>]\<rparr>)"
        unfolding sp x post_def by simp
    qed
  qed
  show "speech env (Some s) w =
             (Threw (Error (js ''The browser does not support HTTP request'')), w)"
    if "\<not> can_construct env"
    unfolding sp getXHR_cases(2) [OF that] by simp
qed

lemma field_text_JStr: "field_text (JStr t) = t"
  by (simp add: field_text_def)

lemma buildRequest_automatic:
  assumes "automatic_codec s"
  shows "texts_well_formed s \<Longrightarrow> \<exists>body. buildRequest env s = Inr body"
    and "\<not> texts_well_formed s \<Longrightarrow> buildRequest env s = Inl (URIError (js ''URI malformed''))"
proof -
  have cc: "chosen_codec env s = Inr (JStr (first_supported env))"
    using assms by (rule chosen_codec_automatic)
  have wf: "well_formed (field_text (JStr (first_supported env)))"
    unfolding field_text_JStr using first_supported_unreserved by (rule unreserved_well_formed)
  show "texts_well_formed s \<Longrightarrow> \<exists>body. buildRequest env s = Inr body"
    by (simp add: buildRequest_eq [OF cc] wf)
  show "\<not> texts_well_formed s \<Longrightarrow> buildRequest env s = Inl (URIError (js ''URI malformed''))"
    by (simp add: buildRequest_eq [OF cc])
qed

lemma buildRequest_validated:
  assumes "validate env (Some s) = Inr s'"
  shows "texts_well_formed s \<Longrightarrow> \<exists>body. buildRequest env s = Inr body"
    and "\<not> texts_well_formed s \<Longrightarrow> buildRequest env s = Inl (URIError (js ''URI malformed''))"
proof -
  let ?codec = "if automatic_codec s then JStr (first_supported env) else c s"
  have cc: "chosen_codec env s = Inr ?codec"
    using assms by (rule chosen_codec_validated)
  have wf: "well_formed (field_text ?codec)"
    using validated_codec_unreserved [OF assms] by (rule unreserved_well_formed)
  show "texts_well_formed s \<Longrightarrow> \<exists>body. buildRequest env s = Inr body"
    using wf by (simp add: buildRequest_eq [OF cc])
  show "\<not> texts_well_formed s \<Longrightarrow> buildRequest env s = Inl (URIError (js ''URI malformed''))"
    by (simp add: buildRequest_eq [OF cc])
qed

lemma validate_automatic:
  "automatic_codec s \<Longrightarrow> required_present s \<Longrightarrow> validate env (Some s) = Inr s"
  by (simp add: validate_Inr)

lemma validate_explicit:
  "explicit_codec s name \<Longrightarrow> probe_supports env (String_toLowerCase name) \<Longrightarrow>
   required_present s \<Longrightarrow> validate env (Some s) = Inr s"
  unfolding validate_Inr by blast

lemma codec_field_automatic:
  assumes "automatic_codec s" and "buildRequest env s = Inr body"
  shows "map_option js (form_field body ''c'') = Some (first_supported env)"
proof -
  have "chosen_codec env s = Inr (JStr (first_supported env))"
    using assms(1) by (rule chosen_codec_automatic)
  from buildRequest_codec_field [OF this assms(2)]
  have "form_field body ''c'' = Some (encoded (first_supported env))"
    by (simp only: field_text_JStr)
  then show ?thesis
    by (simp add: js_encoded_unreserved first_supported_unreserved)
qed

lemma codec_field_explicit:
  assumes "explicit_codec s name" and "probe_supports env (String_toLowerCase name)"
    and "buildRequest env s = Inr body"
  shows "map_option js (form_field body ''c'') = Some name"
proof -
  have "String_toLowerCase name \<in> set (map fst codec_table)"
    using assms(2) by (rule supported_name_in_table)
  then have "list_all unreserved (String_toLowerCase name)"
    by (rule codec_names_unreserved)
  then have u: "list_all unreserved name"
    by (rule toLowerCase_unreserved)
  have "chosen_codec env s = Inr (JStr name)"
    using assms(1) by (rule chosen_codec_explicit)
  from buildRequest_codec_field [OF this assms(3)]
  have "form_field body ''c'' = Some (encoded name)"
    by (simp only: field_text_JStr)
  then show ?thesis
    by (simp add: js_encoded_unreserved u)
qed

section \<open>Bodies of the settings used below\<close>

lemma can_construct_fixtures:
  "can_construct modern_browser" "can_construct mute_browser"
  "\<not> can_construct offline_browser" "\<not> can_construct bare_browser"
  by (simp_all add: can_construct_def modern_browser_def mute_browser_def offline_browser_def
      bare_browser_def)

lemma js_int_fixtures: "js_int 0 = JInt False 0" "js_int (- 12) = JInt True 12"
  by (simp_all add: js_int_def)

lemma decimal_fixtures:
  "decimal (- 12) = ''-12''"
  "decimal 1000000000000000000000 = ''1000000000000000000000''"
  by (simp_all add: decimal_def nat_digits.simps digit_char_def char_of_eq_iff)

lemma field_text_minus_12: "field_text (JInt True 12) = js ''-12''"
proof -
  have "ToString (js_int (- 12)) = js (decimal (- 12))"
    by (rule ToString_js_int) simp
  then show ?thesis
    by (simp add: js_int_fixtures decimal_fixtures field_text_def)
qed

lemma body_joke:
  "buildRequest env (joke_settings a_joke) =
     Inr ''key=YOUR%20API&src=Knock%20knock%3F&hl=en-us&r=&c=mp3&f=44khz_16bit_stereo&ssml=&b64=true''"
proof -
  have "chosen_codec env (joke_settings a_joke) = Inr (JStr (js ''mp3''))"
    using joke_settings_explicit by (rule chosen_codec_explicit)
  then show ?thesis
    by (simp add: buildRequest_eq texts_well_formed_def joke_settings_def field_text_fixtures
        well_formed_fixtures encoded_fixtures)
qed

lemma first_supported_modern: "first_supported modern_browser = js ''mp3''"
  by (simp add: first_supported_def codec_table_def probe_modern)

lemma body_automatic_mute:
  "buildRequest mute_browser ((joke_settings a_joke)\<lparr>c := JStr (js ''Auto'')\<rparr>) =
     Inr ''key=YOUR%20API&src=Knock%20knock%3F&hl=en-us&r=&c=&f=44khz_16bit_stereo&ssml=&b64=true''"
proof -
  have "automatic_codec ((joke_settings a_joke)\<lparr>c := JStr (js ''Auto'')\<rparr>)"
    by (simp add: automatic_codec_def lower_Auto)
  then have "chosen_codec mute_browser ((joke_settings a_joke)\<lparr>c := JStr (js ''Auto'')\<rparr>)
               = Inr (JStr (first_supported mute_browser))"
    by (rule chosen_codec_automatic)
  then show ?thesis
    by (simp add: buildRequest_eq texts_well_formed_def joke_settings_def field_text_fixtures
        well_formed_fixtures encoded_fixtures first_supported_mute)
qed

lemma body_automatic_bare:
  "buildRequest bare_browser ((joke_settings a_joke)\<lparr>c := JUndefined\<rparr>) =
     Inr ''key=YOUR%20API&src=Knock%20knock%3F&hl=en-us&r=&c=&f=44khz_16bit_stereo&ssml=&b64=true''"
proof -
  have "automatic_codec ((joke_settings a_joke)\<lparr>c := JUndefined\<rparr>)"
    by (simp add: automatic_codec_def)
  then have "chosen_codec bare_browser ((joke_settings a_joke)\<lparr>c := JUndefined\<rparr>)
               = Inr (JStr (first_supported bare_browser))"
    by (rule chosen_codec_automatic)
  then show ?thesis
    by (simp add: buildRequest_eq texts_well_formed_def joke_settings_def field_text_fixtures
        well_formed_fixtures encoded_fixtures first_supported_bare)
qed

lemma body_automatic_modern:
  "buildRequest modern_browser ((joke_settings a_joke)\<lparr>c := JUndefined\<rparr>) =
     Inr ''key=YOUR%20API&src=Knock%20knock%3F&hl=en-us&r=&c=mp3&f=44khz_16bit_stereo&ssml=&b64=true''"
proof -
  have "automatic_codec ((joke_settings a_joke)\<lparr>c := JUndefined\<rparr>)"
    by (simp add: automatic_codec_def)
  then have "chosen_codec modern_browser ((joke_settings a_joke)\<lparr>c := JUndefined\<rparr>)
               = Inr (JStr (first_supported modern_browser))"
    by (rule chosen_codec_automatic)
  then show ?thesis
    by (simp add: buildRequest_eq texts_well_formed_def joke_settings_def field_text_fixtures
        well_formed_fixtures encoded_fixtures first_supported_modern)
qed

lemma explicit_OGG: "explicit_codec ((joke_settings joke)\<lparr>c := JStr (js ''OGG'')\<rparr>) (js ''OGG'')"
  by (simp add: explicit_codec_def lower_OGG js_inject js_eq_Nil)

lemma body_OGG:
  "buildRequest env ((joke_settings a_joke)\<lparr>c := JStr (js ''OGG'')\<rparr>) =
     Inr ''key=YOUR%20API&src=Knock%20knock%3F&hl=en-us&r=&c=OGG&f=44khz_16bit_stereo&ssml=&b64=true''"
proof -
  have "chosen_codec env ((joke_settings a_joke)\<lparr>c := JStr (js ''OGG'')\<rparr>) = Inr (JStr (js ''OGG''))"
    using explicit_OGG by (rule chosen_codec_explicit)
  then show ?thesis
    by (simp add: buildRequest_eq texts_well_formed_def joke_settings_def field_text_fixtures
        well_formed_fixtures encoded_fixtures)
qed

lemma explicit_rate: "explicit_codec ((joke_settings joke)\<lparr>r := v\<rparr>) (js ''mp3'')"
  using joke_settings_explicit [of joke] by (simp add: explicit_codec_def)

lemma body_minus_12:
  "buildRequest env ((joke_settings a_joke)\<lparr>r := JInt True 12\<rparr>) =
     Inr ''key=YOUR%20API&src=Knock%20knock%3F&hl=en-us&r=-12&c=mp3&f=44khz_16bit_stereo&ssml=&b64=true''"
proof -
  have "chosen_codec env ((joke_settings a_joke)\<lparr>r := JInt True 12\<rparr>) = Inr (JStr (js ''mp3''))"
    using explicit_rate by (rule chosen_codec_explicit)
  then show ?thesis
    by (simp add: buildRequest_eq texts_well_formed_def joke_settings_def field_text_fixtures
        well_formed_fixtures encoded_fixtures field_text_minus_12)
qed

lemma body_ten_to_21:
  "buildRequest env ((joke_settings a_joke)\<lparr>r := ten_to_21\<rparr>) =
     Inr ''key=YOUR%20API&src=Knock%20knock%3F&hl=en-us&r=1e%2B21&c=mp3&f=44khz_16bit_stereo&ssml=&b64=true''"
proof -
  have "chosen_codec env ((joke_settings a_joke)\<lparr>r := ten_to_21\<rparr>) = Inr (JStr (js ''mp3''))"
    using explicit_rate by (rule chosen_codec_explicit)
  then show ?thesis
    by (simp add: buildRequest_eq texts_well_formed_def joke_settings_def field_text_fixtures
        well_formed_fixtures encoded_fixtures)
qed

lemma body_broken_joke:
  "buildRequest env (joke_settings broken_joke) = Inl (URIError (js ''URI malformed''))"
proof -
  have "chosen_codec env (joke_settings broken_joke) = Inr (JStr (js ''mp3''))"
    using joke_settings_explicit by (rule chosen_codec_explicit)
  then show ?thesis
    by (simp add: buildRequest_eq joke_settings_well_formed field_text_fixtures
        well_formed_fixtures)
qed

section \<open>The codec of the request\<close>

text \<open>
  C3, as amended. The codec is left to the client: the field is omitted or otherwise
  falsy, or it is auto in any letter case. \<^verbatim>\<open>_buildRequest\<close> builds a body exactly when
  the texts of key, src, hl, r, f and ssml are well formed; when one of them holds a
  lone surrogate, \<^verbatim>\<open>encodeURIComponent\<close> throws a URIError. In every body built, whatever
  the browser answers, the field c is the first name in the order mp3, wav, aac, ogg,
  caf that the probe supports, and empty when it supports none. With the three required
  fields present, \<^verbatim>\<open>speech\<close> sends exactly that body in one POST, also when the codec is
  empty, provided a request object can be constructed; when none can, it throws the
  error of \<^verbatim>\<open>_getXHR\<close> and sends nothing; when a text is not well formed, it throws the
  URIError and sends nothing. With a required field missing it throws the error about
  that field and sends nothing.
\<close>

theorem automatic_codec_first_supported:
  assumes "automatic_codec s"
  shows "(texts_well_formed s \<longrightarrow> (\<exists>body. buildRequest env s = Inr body))
       \<and> (\<not> texts_well_formed s \<longrightarrow> buildRequest env s = Inl (URIError (js ''URI malformed'')))
       \<and> (\<forall>body. buildRequest env s = Inr body \<longrightarrow>
            map_option js (form_field body ''c'') = Some (first_supported env)
            \<and> (required_present s \<and> can_construct env \<longrightarrow>
                 (\<exists>xhr. speech env (Some s) w =
                    (Returned,
                     w\<lparr>sent := sent w @
                        [\<lparr>transport = xhr, req_method = ''POST'',
                          req_url = ''https://api.voicerss.org/'', req_async = True,
                          req_headers =
                            [(''Content-Type'', ''application/x-www-form-urlencoded; charset=UTF-8'')],
                          req_body = body\<rparr>]\<rparr>)))
            \<and> (required_present s \<and> \<not> can_construct env \<longrightarrow>
                 speech env (Some s) w =
                   (Threw (Error (js ''The browser does not support HTTP request'')), w)))
       \<and> (required_present s \<and> \<not> texts_well_formed s \<longrightarrow>
            speech env (Some s) w = (Threw (URIError (js ''URI malformed'')), w))
       \<and> (\<not> required_present s \<longrightarrow> speech env (Some s) w = (Threw (missing_field_error s), w))"
proof (intro conjI impI allI)
  show "\<exists>body. buildRequest env s = Inr body" if "texts_well_formed s"
    using assms that by (rule buildRequest_automatic(1))
  show "buildRequest env s = Inl (URIError (js ''URI malformed''))" if "\<not> texts_well_formed s"
    using assms that by (rule buildRequest_automatic(2))
  show "speech env (Some s) w = (Threw (URIError (js ''URI malformed'')), w)"
    if "required_present s \<and> \<not> texts_well_formed s"
  proof -
    from that assms have "validate env (Some s) = Inr s"
      by (simp add: validate_automatic)
    moreover from that assms have "buildRequest env s = Inl (URIError (js ''URI malformed''))"
      by (simp add: buildRequest_automatic(2))
    ultimately show ?thesis
      by (rule speech_URIError)
  qed
  show "speech env (Some s) w = (Threw (missing_field_error s), w)" if "\<not> required_present s"
    using that by (simp add: validate_missing speech_invalid)
next
  fix body
  assume b: "buildRequest env s = Inr body"
  show "map_option js (form_field body ''c'') = Some (first_supported env)"
    using assms b by (rule codec_field_automatic)
  show "\<exists>xhr. speech env (Some s) w =
          (Returned,
           w\<lparr>sent := sent w @
              [\<lparr>transport = xhr, req_method = ''POST'',
                req_url = ''https://api.voicerss.org/'', req_async = True,
                req_headers =
                  [(''Content-Type'', ''application/x-www-form-urlencoded; charset=UTF-8'')],
                req_body = body\<rparr>]\<rparr>)"
    if "required_present s \<and> can_construct env"
  proof -
    from that assms have "validate env (Some s) = Inr s"
      by (simp add: validate_automatic)
    from speech_sends(1) [OF this b] that show ?thesis
      by (elim conjE)
  qed
  show "speech env (Some s) w =
          (Threw (Error (js ''The browser does not support HTTP request'')), w)"
    if "required_present s \<and> \<not> can_construct env"
  proof -
    from that assms have "validate env (Some s) = Inr s"
      by (simp add: validate_automatic)
    from speech_sends(2) [OF this b] that show ?thesis
      by (elim conjE)
  qed
qed

theorem automatic_codec_first_supported_witness:
  "fst (speech mute_browser (Some ((joke_settings a_joke)\<lparr>c := JStr (js ''Auto'')\<rparr>)) joke_page)
     = Returned
   \<and> map req_method
       (sent (snd (speech mute_browser (Some ((joke_settings a_joke)\<lparr>c := JStr (js ''Auto'')\<rparr>))
                     joke_page)))
     = [''POST'']
   \<and> map req_body
       (sent (snd (speech mute_browser (Some ((joke_settings a_joke)\<lparr>c := JStr (js ''Auto'')\<rparr>))
                     joke_page)))
     = [''key=YOUR%20API&src=Knock%20knock%3F&hl=en-us&r=&c=&f=44khz_16bit_stereo&ssml=&b64=true'']
   \<and> form_field
        ''key=YOUR%20API&src=Knock%20knock%3F&hl=en-us&r=&c=&f=44khz_16bit_stereo&ssml=&b64=true''
        ''c'' = Some []
   \<and> form_field
        ''key=YOUR%20API&src=Knock%20knock%3F&hl=en-us&r=&c=mp3&f=44khz_16bit_stereo&ssml=&b64=true''
        ''c'' = Some ''mp3''
   \<and> speech bare_browser (Some ((joke_settings (JStr []))\<lparr>c := JUndefined\<rparr>)) joke_page
     = (Threw (Error (js ''The text is undefined'')), joke_page)
   \<and> speech bare_browser (Some ((joke_settings a_joke)\<lparr>c := JUndefined\<rparr>)) joke_page
     = (Threw (Error (js ''The browser does not support HTTP request'')), joke_page)
   \<and> speech mute_browser (Some ((joke_settings broken_joke)\<lparr>c := JUndefined\<rparr>)) joke_page
     = (Threw (URIError (js ''URI malformed'')), joke_page)"
proof -
  let ?s = "(joke_settings a_joke)\<lparr>c := JStr (js ''Auto'')\<rparr>"
  let ?t = "(joke_settings a_joke)\<lparr>c := JUndefined\<rparr>"
  let ?u = "(joke_settings (JStr []))\<lparr>c := JUndefined\<rparr>"
  let ?b = "''key=YOUR%20API&src=Knock%20knock%3F&hl=en-us&r=&c=&f=44khz_16bit_stereo&ssml=&b64=true''"
  let ?b' = "''key=YOUR%20API&src=Knock%20knock%3F&hl=en-us&r=&c=mp3&f=44khz_16bit_stereo&ssml=&b64=true''"
  let ?v = "(joke_settings broken_joke)\<lparr>c := JUndefined\<rparr>"
  have a: "automatic_codec ?s" "automatic_codec ?t" "automatic_codec ?u" "automatic_codec ?v"
    by (simp_all add: automatic_codec_def lower_Auto)
  have rp4: "required_present ?t \<and> \<not> can_construct bare_browser"
    by (simp add: required_present_def joke_settings_def truthy_fixtures js_eq_Nil
        can_construct_fixtures)
  have rp5: "required_present ?v \<and> \<not> texts_well_formed ?v"
    using joke_settings_well_formed [of broken_joke]
    by (simp add: required_present_def joke_settings_def truthy_fixtures js_eq_Nil
        texts_well_formed_def field_text_fixtures well_formed_fixtures)
  have rp: "required_present ?s \<and> can_construct mute_browser"
    by (simp add: required_present_def joke_settings_def truthy_fixtures js_eq_Nil
        can_construct_fixtures)
  have nrp: "\<not> required_present ?u"
    by (simp add: required_present_def joke_settings_def)
  have m: "missing_field_error ?u = Error (js ''The text is undefined'')"
    by (simp add: missing_field_error_def joke_settings_def js_eq_Nil)
  note t1 = automatic_codec_first_supported [OF a(1), of mute_browser joke_page,
      THEN conjunct2, THEN conjunct2, THEN conjunct1, rule_format, OF body_automatic_mute]
  note t2 = automatic_codec_first_supported [OF a(2), of modern_browser joke_page,
      THEN conjunct2, THEN conjunct2, THEN conjunct1, rule_format, OF body_automatic_modern]
  note t3 = automatic_codec_first_supported [OF a(3), of bare_browser joke_page,
      THEN conjunct2, THEN conjunct2, THEN conjunct2, THEN conjunct2, rule_format, OF nrp]
  from t1 [THEN conjunct2, THEN conjunct1, rule_format, OF rp]
  obtain xhr where sp: "speech mute_browser (Some ?s) joke_page =
          (Returned,
           joke_page\<lparr>sent := sent joke_page @
              [\<lparr>transport = xhr, req_method = ''POST'',
                req_url = ''https://api.voicerss.org/'', req_async = True,
                req_headers =
                  [(''Content-Type'', ''application/x-www-form-urlencoded; charset=UTF-8'')],
                req_body = ?b\<rparr>]\<rparr>)"
    by (rule exE)
  have e: "sent joke_page = []"
    by (simp add: joke_page_def)
  have c1: "form_field ?b ''c'' = Some []"
    using t1 [THEN conjunct1] by (simp add: first_supported_mute js_eq_Nil)
  have "map_option js (form_field ?b' ''c'') = Some (js ''mp3'')"
    using t2 [THEN conjunct1] by (simp only: first_supported_modern)
  then have c2: "form_field ?b' ''c'' = Some ''mp3''"
    by (auto simp: js_inject)
  have c3: "speech bare_browser (Some ?u) joke_page
     = (Threw (Error (js ''The text is undefined'')), joke_page)"
    using t3 by (simp only: m)
  have c4: "speech bare_browser (Some ?t) joke_page
     = (Threw (Error (js ''The browser does not support HTTP request'')), joke_page)"
    using automatic_codec_first_supported [OF a(2), of bare_browser joke_page,
      THEN conjunct2, THEN conjunct2, THEN conjunct1, rule_format, OF body_automatic_bare,
      THEN conjunct2, THEN conjunct2, rule_format, OF rp4] .
  have c5: "speech mute_browser (Some ?v) joke_page
     = (Threw (URIError (js ''URI malformed'')), joke_page)"
    using automatic_codec_first_supported [OF a(4), of mute_browser joke_page,
      THEN conjunct2, THEN conjunct2, THEN conjunct2, THEN conjunct1, rule_format, OF rp5] .
  show ?thesis
    unfolding sp by (simp add: e c1 c2 c3 c4 c5)
qed

text \<open>
  C3 as stated says that the request is still sent when the probe supports no codec. It
  is not when no request object can be constructed, and it is not when the text holds a
  lone surrogate: the codec is left to the client and the required fields are present,
  yet \<^verbatim>\<open>speech\<close> throws and the list of requests sent stays empty.
\<close>

theorem automatic_codec_counterexample:
  "automatic_codec ((joke_settings a_joke)\<lparr>c := JUndefined\<rparr>)
   \<and> required_present ((joke_settings a_joke)\<lparr>c := JUndefined\<rparr>)
   \<and> first_supported bare_browser = []
   \<and> speech bare_browser (Some ((joke_settings a_joke)\<lparr>c := JUndefined\<rparr>)) joke_page
       = (Threw (Error (js ''The browser does not support HTTP request'')), joke_page)
   \<and> automatic_codec ((joke_settings broken_joke)\<lparr>c := JUndefined\<rparr>)
   \<and> required_present ((joke_settings broken_joke)\<lparr>c := JUndefined\<rparr>)
   \<and> first_supported mute_browser = []
   \<and> can_construct mute_browser
   \<and> buildRequest mute_browser ((joke_settings broken_joke)\<lparr>c := JUndefined\<rparr>)
       = Inl (URIError (js ''URI malformed''))
   \<and> speech mute_browser (Some ((joke_settings broken_joke)\<lparr>c := JUndefined\<rparr>)) joke_page
       = (Threw (URIError (js ''URI malformed'')), joke_page)
   \<and> sent joke_page = []"
proof -
  let ?s = "(joke_settings a_joke)\<lparr>c := JUndefined\<rparr>"
  let ?t = "(joke_settings broken_joke)\<lparr>c := JUndefined\<rparr>"
  have a: "automatic_codec ?s" "automatic_codec ?t"
    by (simp_all add: automatic_codec_def)
  have rp: "required_present ?s" "required_present ?t"
    by (simp_all add: required_present_def joke_settings_def truthy_fixtures js_eq_Nil)
  have v: "validate bare_browser (Some ?s) = Inr ?s" "validate mute_browser (Some ?t) = Inr ?t"
    using a rp by (simp_all add: validate_automatic)
  have wf: "texts_well_formed ?s" "\<not> texts_well_formed ?t"
    using joke_settings_well_formed [of a_joke] joke_settings_well_formed [of broken_joke]
    by (simp_all add: texts_well_formed_def field_text_fixtures well_formed_fixtures)
  from buildRequest_automatic(1) [OF a(1) wf(1)] obtain body where
    "buildRequest bare_browser ?s = Inr body"
    by (rule exE)
  from speech_sends(2) [OF v(1) this can_construct_fixtures(4)]
  have s1: "speech bare_browser (Some ?s) joke_page
       = (Threw (Error (js ''The browser does not support HTTP request'')), joke_page)" .
  have b2: "buildRequest mute_browser ?t = Inl (URIError (js ''URI malformed''))"
    using a(2) wf(2) by (rule buildRequest_automatic(2))
  have s2: "speech mute_browser (Some ?t) joke_page
       = (Threw (URIError (js ''URI malformed'')), joke_page)"
    using v(2) b2 by (rule speech_URIError)
  have e: "sent joke_page = []"
    by (simp add: joke_page_def)
  show ?thesis
    by (intro conjI a rp first_supported_bare first_supported_mute can_construct_fixtures(2)
        s1 b2 s2 e)
qed

text \<open>
  C4, as amended. The three required fields are present and the codec is an explicit one
  that the probe supports: the settings pass validation. When the texts of key, src,
  hl, r, f and ssml are well formed, the body is built, its field c is the codec as the
  caller wrote it, and \<^verbatim>\<open>speech\<close> returns having sent exactly one request more, a POST
  with that body, provided a request object can be constructed; when none can, it
  throws the error of \<^verbatim>\<open>_getXHR\<close> and sends nothing. When one of the texts holds a lone
  surrogate, \<^verbatim>\<open>encodeURIComponent\<close> throws a URIError, which \<^verbatim>\<open>speech\<close> lets through, and
  nothing is sent.
\<close>

theorem explicit_codec_request:
  assumes "required_present s"
    and "explicit_codec s name"
    and "probe_supports env (String_toLowerCase name)"
  shows "validate env (Some s) = Inr s
       \<and> (texts_well_formed s \<longrightarrow>
            (\<exists>body. buildRequest env s = Inr body
               \<and> map_option js (form_field body ''c'') = Some name
               \<and> (can_construct env \<longrightarrow>
                    (\<exists>xhr. speech env (Some s) w =
                       (Returned,
                        w\<lparr>sent := sent w @
                           [\<lparr>transport = xhr, req_method = ''POST'',
                             req_url = ''https://api.voicerss.org/'', req_async = True,
                             req_headers =
                               [(''Content-Type'',
                                 ''application/x-www-form-urlencoded; charset=UTF-8'')],
                             req_body = body\<rparr>]\<rparr>)))
               \<and> (\<not> can_construct env \<longrightarrow>
                    speech env (Some s) w =
                      (Threw (Error (js ''The browser does not support HTTP request'')), w))))
       \<and> (\<not> texts_well_formed s \<longrightarrow>
            speech env (Some s) w = (Threw (URIError (js ''URI malformed'')), w))"
proof -
  have v: "validate env (Some s) = Inr s"
    using assms(2,3,1) by (rule validate_explicit)
  have wf: "\<exists>body. buildRequest env s = Inr body
               \<and> map_option js (form_field body ''c'') = Some name
               \<and> (can_construct env \<longrightarrow>
                    (\<exists>xhr. speech env (Some s) w =
                       (Returned,
                        w\<lparr>sent := sent w @
                           [\<lparr>transport = xhr, req_method = ''POST'',
                             req_url = ''https://api.voicerss.org/'', req_async = True,
                             req_headers =
                               [(''Content-Type'',
                                 ''application/x-www-form-urlencoded; charset=UTF-8'')],
                             req_body = body\<rparr>]\<rparr>)))
               \<and> (\<not> can_construct env \<longrightarrow>
                    speech env (Some s) w =
                      (Threw (Error (js ''The browser does not support HTTP request'')), w))"
    if "texts_well_formed s"
  proof -
    from buildRequest_validated(1) [OF v that] obtain body where b: "buildRequest env s = Inr body"
      by (rule exE)
    show ?thesis
    proof (rule exI [of _ body], intro conjI impI)
      show "buildRequest env s = Inr body"
        by (rule b)
      show "map_option js (form_field body ''c'') = Some name"
        using assms(2,3) b by (rule codec_field_explicit)
      show "speech env (Some s) w =
              (Threw (Error (js ''The browser does not support HTTP request'')), w)"
        if "\<not> can_construct env"
        using v b that by (rule speech_sends(2))
      show "\<exists>xhr. speech env (Some s) w =
                       (Returned,
                        w\<lparr>sent := sent w @
                           [\<lparr>transport = xhr, req_method = ''POST'',
                             req_url = ''https://api.voicerss.org/'', req_async = True,
                             req_headers =
                               [(''Content-Type'',
                                 ''application/x-www-form-urlencoded; charset=UTF-8'')],
                             req_body = body\<rparr>]\<rparr>)"
        if "can_construct env"
        using v b that by (rule speech_sends(1))
    qed
  qed
  have nwf: "speech env (Some s) w = (Threw (URIError (js ''URI malformed'')), w)"
    if "\<not> texts_well_formed s"
    using v buildRequest_validated(2) [OF v that] by (rule speech_URIError)
  show ?thesis
    using v wf nwf by (intro conjI impI)
qed

theorem explicit_codec_request_witness:
  "fst (speech modern_browser (Some ((joke_settings a_joke)\<lparr>c := JStr (js ''OGG'')\<rparr>)) joke_page)
     = Returned
   \<and> map req_method
       (sent (snd (speech modern_browser (Some ((joke_settings a_joke)\<lparr>c := JStr (js ''OGG'')\<rparr>))
                     joke_page)))
     = [''POST'']
   \<and> map req_body
       (sent (snd (speech modern_browser (Some ((joke_settings a_joke)\<lparr>c := JStr (js ''OGG'')\<rparr>))
                     joke_page)))
     = [''key=YOUR%20API&src=Knock%20knock%3F&hl=en-us&r=&c=OGG&f=44khz_16bit_stereo&ssml=&b64=true'']
   \<and> form_field
        ''key=YOUR%20API&src=Knock%20knock%3F&hl=en-us&r=&c=OGG&f=44khz_16bit_stereo&ssml=&b64=true''
        ''c'' = Some ''OGG''
   \<and> speech offline_browser (Some (joke_settings a_joke)) joke_page
     = (Threw (Error (js ''The browser does not support HTTP request'')), joke_page)
   \<and> speech modern_browser (Some (joke_settings broken_joke)) joke_page
     = (Threw (URIError (js ''URI malformed'')), joke_page)"
proof -
  let ?s = "(joke_settings a_joke)\<lparr>c := JStr (js ''OGG'')\<rparr>"
  let ?b = "''key=YOUR%20API&src=Knock%20knock%3F&hl=en-us&r=&c=OGG&f=44khz_16bit_stereo&ssml=&b64=true''"
  have rp: "required_present ?s"
    by (simp add: required_present_def joke_settings_def truthy_fixtures js_eq_Nil)
  have e: "explicit_codec ?s (js ''OGG'')"
    by (rule explicit_OGG)
  have p: "probe_supports modern_browser (String_toLowerCase (js ''OGG''))"
    by (simp add: lower_OGG probe_modern)
  have wf: "texts_well_formed ?s"
    by (simp add: texts_well_formed_def joke_settings_def field_text_fixtures well_formed_fixtures)
  from explicit_codec_request [OF rp e p, of joke_page, THEN conjunct2, THEN conjunct1,
      rule_format, OF wf]
  obtain body where b: "buildRequest modern_browser ?s = Inr body"
    and cf: "map_option js (form_field body ''c'') = Some (js ''OGG'')"
    and sc: "can_construct modern_browser \<longrightarrow>
               (\<exists>xhr. speech modern_browser (Some ?s) joke_page =
                  (Returned,
                   joke_page\<lparr>sent := sent joke_page @
                      [\<lparr>transport = xhr, req_method = ''POST'',
                        req_url = ''https://api.voicerss.org/'', req_async = True,
                        req_headers =
                          [(''Content-Type'',
                            ''application/x-www-form-urlencoded; charset=UTF-8'')],
                        req_body = body\<rparr>]\<rparr>))"
    by (elim exE conjE) (rule that)
  from b have body: "body = ?b"
    by (simp add: body_OGG)
  from sc [rule_format, OF can_construct_fixtures(1)]
  obtain xhr where sp: "speech modern_browser (Some ?s) joke_page =
                  (Returned,
                   joke_page\<lparr>sent := sent joke_page @
                      [\<lparr>transport = xhr, req_method = ''POST'',
                        req_url = ''https://api.voicerss.org/'', req_async = True,
                        req_headers =
                          [(''Content-Type'',
                            ''application/x-www-form-urlencoded; charset=UTF-8'')],
                        req_body = body\<rparr>]\<rparr>)"
    by (rule exE)
  have n: "sent joke_page = []"
    by (simp add: joke_page_def)
  from cf have c1: "form_field ?b ''c'' = Some ''OGG''"
    unfolding body by (auto simp: js_inject)
  have rp': "required_present (joke_settings a_joke)" "required_present (joke_settings broken_joke)"
    by (simp_all add: joke_settings_required truthy_fixtures)
  have p': "probe_supports offline_browser (String_toLowerCase (js ''mp3''))"
    "probe_supports modern_browser (String_toLowerCase (js ''mp3''))"
    by (simp_all add: lower_mp3 probe_offline probe_modern)
  have wf': "texts_well_formed (joke_settings a_joke)" "\<not> texts_well_formed (joke_settings broken_joke)"
    by (simp_all add: joke_settings_well_formed field_text_fixtures well_formed_fixtures)
  from explicit_codec_request [OF rp'(1) joke_settings_explicit p'(1), of joke_page,
      THEN conjunct2, THEN conjunct1, rule_format, OF wf'(1)]
  have c2: "speech offline_browser (Some (joke_settings a_joke)) joke_page
     = (Threw (Error (js ''The browser does not support HTTP request'')), joke_page)"
    using can_construct_fixtures(3) by (elim exE conjE) simp
  have c3: "speech modern_browser (Some (joke_settings broken_joke)) joke_page
     = (Threw (URIError (js ''URI malformed'')), joke_page)"
    using explicit_codec_request [OF rp'(2) joke_settings_explicit p'(2), of joke_page,
      THEN conjunct2, THEN conjunct2, rule_format, OF wf'(2)] .
  show ?thesis
    unfolding sp by (simp add: n c1 body c2 c3)
qed

text \<open>
  C4 as stated fails in two ways. In a browser where neither \<^verbatim>\<open>XMLHttpRequest\<close> nor any
  of the \<^verbatim>\<open>ActiveXObject\<close> fallbacks can be constructed, the settings are valid, the
  codec is explicit and supported, and \<^verbatim>\<open>speech\<close> throws the error of \<^verbatim>\<open>_getXHR\<close> and
  sends nothing. And with a text that ends in a lone surrogate, in a browser that has
  \<^verbatim>\<open>XMLHttpRequest\<close>, the settings pass validation and \<^verbatim>\<open>speech\<close> throws the URIError of
  \<^verbatim>\<open>encodeURIComponent\<close> and sends nothing.
\<close>

theorem explicit_codec_counterexample:
  "required_present (joke_settings a_joke)
   \<and> explicit_codec (joke_settings a_joke) (js ''mp3'')
   \<and> probe_supports offline_browser (String_toLowerCase (js ''mp3''))
   \<and> validate offline_browser (Some (joke_settings a_joke)) = Inr (joke_settings a_joke)
   \<and> speech offline_browser (Some (joke_settings a_joke)) joke_page
       = (Threw (Error (js ''The browser does not support HTTP request'')), joke_page)
   \<and> required_present (joke_settings broken_joke)
   \<and> explicit_codec (joke_settings broken_joke) (js ''mp3'')
   \<and> probe_supports modern_browser (String_toLowerCase (js ''mp3''))
   \<and> can_construct modern_browser
   \<and> validate modern_browser (Some (joke_settings broken_joke)) = Inr (joke_settings broken_joke)
   \<and> speech modern_browser (Some (joke_settings broken_joke)) joke_page
       = (Threw (URIError (js ''URI malformed'')), joke_page)
   \<and> sent joke_page = []"
proof -
  have rp: "required_present (joke_settings a_joke)" "required_present (joke_settings broken_joke)"
    by (simp_all add: joke_settings_required truthy_fixtures)
  have p: "probe_supports offline_browser (String_toLowerCase (js ''mp3''))"
    "probe_supports modern_browser (String_toLowerCase (js ''mp3''))"
    by (simp_all add: lower_mp3 probe_offline probe_modern)
  have v1: "validate offline_browser (Some (joke_settings a_joke)) = Inr (joke_settings a_joke)"
    using joke_settings_explicit p(1) rp(1) by (rule validate_explicit)
  have v2: "validate modern_browser (Some (joke_settings broken_joke)) = Inr (joke_settings broken_joke)"
    using joke_settings_explicit p(2) rp(2) by (rule validate_explicit)
  have s1: "speech offline_browser (Some (joke_settings a_joke)) joke_page
       = (Threw (Error (js ''The browser does not support HTTP request'')), joke_page)"
    using v1 body_joke can_construct_fixtures(3) by (rule speech_sends(2))
  have s2: "speech modern_browser (Some (joke_settings broken_joke)) joke_page
       = (Threw (URIError (js ''URI malformed'')), joke_page)"
    using v2 body_broken_joke by (rule speech_URIError)
  have e: "sent joke_page = []"
    by (simp add: joke_page_def)
  show ?thesis
    by (intro conjI rp joke_settings_explicit p v1 v2 s1 s2 e can_construct_fixtures(1))
qed

section \<open>The request body\<close>

lemma url_char_true: "list_all url_char ''true''"
  by (simp add: url_char_def unreserved_def)

lemma encoded_alphabet: "list_all url_char (encoded t)"
proof (cases "well_formed t")
  case True
  then show ?thesis
    using encodeURIComponent_alphabet [OF encoded_Inr] by (simp add: list_all_iff)
next
  case False
  then show ?thesis
    by (simp add: encoded_def encodeURIComponent_ill_formed)
qed

lemma percent_decode_encoded: "well_formed t \<Longrightarrow> percent_decode (encoded t) = utf8_bytes t"
  using percent_decode_encodeURIComponent [OF encoded_Inr] by simp

lemma field_text_falsy: "\<not> truthy v \<Longrightarrow> field_text v = []"
  by (simp add: field_text_def)

lemma encoded_Nil: "encoded [] = []"
  by (simp add: encoded_def)

text \<open>
  C5, as amended. Settings that pass validation give a body exactly when the texts of
  key, src, hl, r, f and ssml are well formed; when one of them holds a lone surrogate,
  \<^verbatim>\<open>encodeURIComponent\<close> throws a URIError, \<^verbatim>\<open>speech\<close> throws it and nothing is sent.
  Every body built is one string that, read as a form, has exactly the fields key, src,
  hl, r, c, f, ssml and b64, in this order, b64 being true. The value of each of the
  first seven is what \<^verbatim>\<open>encodeURIComponent\<close> returns for the field's text (for c, the
  text of the codec chosen): it is made of unreserved characters and percent signs
  only, and decoding it gives the UTF-8 octets of the text. A field r, f or ssml that is
  missing (or otherwise falsy) is present with the empty value. \<^verbatim>\<open>speech\<close> sends that
  body in one POST when a request object can be constructed, and throws the error of
  \<^verbatim>\<open>_getXHR\<close>, sending nothing, when none can.
\<close>

theorem request_body_form:
  assumes "validate env (Some s) = Inr s'"
  shows "(texts_well_formed s \<longrightarrow> (\<exists>body. buildRequest env s = Inr body))
       \<and> (\<not> texts_well_formed s \<longrightarrow>
            buildRequest env s = Inl (URIError (js ''URI malformed''))
            \<and> speech env (Some s) w = (Threw (URIError (js ''URI malformed'')), w))
       \<and> (\<forall>body. buildRequest env s = Inr body \<longrightarrow>
            map fst (form_fields body) =
              [''key'', ''src'', ''hl'', ''r'', ''c'', ''f'', ''ssml'', ''b64'']
            \<and> map (Inr \<circ> snd) (form_fields body) =
                map (encodeURIComponent \<circ> field_text)
                  [key s, src s, hl s, r s,
                   if automatic_codec s then JStr (first_supported env) else c s, f s, ssml s]
                @ [Inr ''true'']
            \<and> map (percent_decode \<circ> snd) (form_fields body) =
                map (utf8_bytes \<circ> field_text)
                  [key s, src s, hl s, r s,
                   if automatic_codec s then JStr (first_supported env) else c s, f s, ssml s]
                @ [''true'']
            \<and> list_all (\<lambda>p. list_all url_char (snd p)) (form_fields body)
            \<and> (\<not> truthy (r s) \<longrightarrow> form_field body ''r'' = Some [])
            \<and> (\<not> truthy (f s) \<longrightarrow> form_field body ''f'' = Some [])
            \<and> (\<not> truthy (ssml s) \<longrightarrow> form_field body ''ssml'' = Some [])
            \<and> (can_construct env \<longrightarrow>
                 (\<exists>xhr. speech env (Some s) w =
                    (Returned,
                     w\<lparr>sent := sent w @
                        [\<lparr>transport = xhr, req_method = ''POST'',
                          req_url = ''https://api.voicerss.org/'', req_async = True,
                          req_headers =
                            [(''Content-Type'', ''application/x-www-form-urlencoded; charset=UTF-8'')],
                          req_body = body\<rparr>]\<rparr>)))
            \<and> (\<not> can_construct env \<longrightarrow>
                 speech env (Some s) w =
                   (Threw (Error (js ''The browser does not support HTTP request'')), w)))"
proof (intro conjI impI allI)
  show "\<exists>body. buildRequest env s = Inr body" if "texts_well_formed s"
    using assms that by (rule buildRequest_validated(1))
  show "buildRequest env s = Inl (URIError (js ''URI malformed''))" if "\<not> texts_well_formed s"
    using assms that by (rule buildRequest_validated(2))
  show "speech env (Some s) w = (Threw (URIError (js ''URI malformed'')), w)"
    if "\<not> texts_well_formed s"
    using assms buildRequest_validated(2) [OF assms that] by (rule speech_URIError)
next
  fix body
  assume b: "buildRequest env s = Inr body"
  let ?codec = "if automatic_codec s then JStr (first_supported env) else c s"
  have cc: "chosen_codec env s = Inr ?codec"
    using assms by (rule chosen_codec_validated)
  note ff = buildRequest_fields [OF cc b]
  from buildRequest_well_formed [OF cc b]
  have wf: "well_formed (field_text (key s))" "well_formed (field_text (src s))"
    "well_formed (field_text (hl s))" "well_formed (field_text (r s))"
    "well_formed (field_text ?codec)" "well_formed (field_text (f s))"
    "well_formed (field_text (ssml s))"
    by (simp_all add: texts_well_formed_def)
  show "map fst (form_fields body) = [''key'', ''src'', ''hl'', ''r'', ''c'', ''f'', ''ssml'', ''b64'']"
    unfolding ff by simp
  show "map (Inr \<circ> snd) (form_fields body) =
          map (encodeURIComponent \<circ> field_text)
            [key s, src s, hl s, r s,
             if automatic_codec s then JStr (first_supported env) else c s, f s, ssml s]
          @ [Inr ''true'']"
    unfolding ff using wf by (simp add: encoded_Inr)
  show "map (percent_decode \<circ> snd) (form_fields body) =
          map (utf8_bytes \<circ> field_text)
            [key s, src s, hl s, r s,
             if automatic_codec s then JStr (first_supported env) else c s, f s, ssml s]
          @ [''true'']"
    unfolding ff using wf by (simp add: percent_decode_encoded)
  show "list_all (\<lambda>p. list_all url_char (snd p)) (form_fields body)"
    unfolding ff using url_char_true by (simp add: encoded_alphabet)
  show "form_field body ''r'' = Some []" if "\<not> truthy (r s)"
    unfolding form_field_def ff using that by (simp add: field_text_falsy encoded_Nil)
  show "form_field body ''f'' = Some []" if "\<not> truthy (f s)"
    unfolding form_field_def ff using that by (simp add: field_text_falsy encoded_Nil)
  show "form_field body ''ssml'' = Some []" if "\<not> truthy (ssml s)"
    unfolding form_field_def ff using that by (simp add: field_text_falsy encoded_Nil)
  show "\<exists>xhr. speech env (Some s) w =
          (Returned,
           w\<lparr>sent := sent w @
              [\<lparr>transport = xhr, req_method = ''POST'',
                req_url = ''https://api.voicerss.org/'', req_async = True,
                req_headers =
                  [(''Content-Type'', ''application/x-www-form-urlencoded; charset=UTF-8'')],
                req_body = body\<rparr>]\<rparr>)"
    if "can_construct env"
    using assms b that by (rule speech_sends(1))
  show "speech env (Some s) w =
          (Threw (Error (js ''The browser does not support HTTP request'')), w)"
    if "\<not> can_construct env"
    using assms b that by (rule speech_sends(2))
qed

lemma validate_joke_settings:
  assumes "truthy joke" and "probe_supports env (js ''mp3'')"
  shows "validate env (Some (joke_settings joke)) = Inr (joke_settings joke)"
proof -
  have p: "probe_supports env (String_toLowerCase (js ''mp3''))"
    using assms(2) by (simp add: lower_mp3)
  have rp: "required_present (joke_settings joke)"
    using assms(1) by (simp add: joke_settings_required)
  show ?thesis
    using joke_settings_explicit p rp by (rule validate_explicit)
qed

lemma utf8_bytes_fixtures:
  "utf8_bytes (js ''YOUR API'') = ''YOUR API''"
  "utf8_bytes (js ''Knock knock?'') = ''Knock knock?''"
  "utf8_bytes (js ''en-us'') = ''en-us''"
  "utf8_bytes (js ''mp3'') = ''mp3''"
  "utf8_bytes (js ''44khz_16bit_stereo'') = ''44khz_16bit_stereo''"
  "utf8_bytes [] = []"
  by (simp_all add: js_def utf8_octets_def high_surrogate_def low_surrogate_def char_of_eq_iff)

lemma joke_settings_not_automatic: "\<not> automatic_codec (joke_settings joke)"
  by (simp add: automatic_codec_def joke_settings_def lower_mp3 js_inject js_eq_Nil)

theorem request_body_form_witness:
  "map fst (form_fields
      ''key=YOUR%20API&src=Knock%20knock%3F&hl=en-us&r=&c=mp3&f=44khz_16bit_stereo&ssml=&b64=true'')
     = [''key'', ''src'', ''hl'', ''r'', ''c'', ''f'', ''ssml'', ''b64'']
   \<and> map (percent_decode \<circ> snd) (form_fields
      ''key=YOUR%20API&src=Knock%20knock%3F&hl=en-us&r=&c=mp3&f=44khz_16bit_stereo&ssml=&b64=true'')
     = [''YOUR API'', ''Knock knock?'', ''en-us'', [], ''mp3'', ''44khz_16bit_stereo'', [], ''true'']
   \<and> form_field
        ''key=YOUR%20API&src=Knock%20knock%3F&hl=en-us&r=&c=mp3&f=44khz_16bit_stereo&ssml=&b64=true''
        ''ssml'' = Some []
   \<and> fst (speech modern_browser (Some (joke_settings a_joke)) joke_page) = Returned
   \<and> map req_body (sent (snd (speech modern_browser (Some (joke_settings a_joke)) joke_page)))
     = [''key=YOUR%20API&src=Knock%20knock%3F&hl=en-us&r=&c=mp3&f=44khz_16bit_stereo&ssml=&b64=true'']
   \<and> speech offline_browser (Some (joke_settings a_joke)) joke_page
     = (Threw (Error (js ''The browser does not support HTTP request'')), joke_page)
   \<and> speech modern_browser (Some (joke_settings broken_joke)) joke_page
     = (Threw (URIError (js ''URI malformed'')), joke_page)"
proof -
  let ?s = "joke_settings a_joke"
  let ?b = "''key=YOUR%20API&src=Knock%20knock%3F&hl=en-us&r=&c=mp3&f=44khz_16bit_stereo&ssml=&b64=true''"
  have v: "validate modern_browser (Some ?s) = Inr ?s"
    using truthy_fixtures(1) probe_modern(1) by (rule validate_joke_settings)
  note th = request_body_form [OF v, of joke_page, THEN conjunct2, THEN conjunct2, rule_format,
      OF body_joke]
  have t: "field_text (key ?s) = js ''YOUR API''" "field_text (src ?s) = js ''Knock knock?''"
    "field_text (hl ?s) = js ''en-us''" "field_text (r ?s) = []"
    "field_text (c ?s) = js ''mp3''" "field_text (f ?s) = js ''44khz_16bit_stereo''"
    "field_text (ssml ?s) = []"
    by (simp_all add: joke_settings_def field_text_fixtures)
  have n: "\<not> truthy (ssml ?s)"
    by (simp add: joke_settings_def)
  have w1: "map fst (form_fields ?b) = [''key'', ''src'', ''hl'', ''r'', ''c'', ''f'', ''ssml'', ''b64'']"
    by (rule th [THEN conjunct1])
  have w2: "map (percent_decode \<circ> snd) (form_fields ?b)
     = [''YOUR API'', ''Knock knock?'', ''en-us'', [], ''mp3'', ''44khz_16bit_stereo'', [], ''true'']"
    using th [THEN conjunct2, THEN conjunct2, THEN conjunct1]
    by (simp add: joke_settings_not_automatic t utf8_bytes_fixtures)
  have w3: "form_field ?b ''ssml'' = Some []"
    using th [THEN conjunct2, THEN conjunct2, THEN conjunct2, THEN conjunct2, THEN conjunct2,
        THEN conjunct2, THEN conjunct1, rule_format, OF n] .
  from th [THEN conjunct2, THEN conjunct2, THEN conjunct2, THEN conjunct2, THEN conjunct2,
        THEN conjunct2, THEN conjunct2, THEN conjunct1, rule_format, OF can_construct_fixtures(1)]
  obtain xhr where sp: "speech modern_browser (Some ?s) joke_page =
          (Returned,
           joke_page\<lparr>sent := sent joke_page @
              [\<lparr>transport = xhr, req_method = ''POST'',
                req_url = ''https://api.voicerss.org/'', req_async = True,
                req_headers =
                  [(''Content-Type'', ''application/x-www-form-urlencoded; charset=UTF-8'')],
                req_body = ?b\<rparr>]\<rparr>)"
    by (rule exE)
  have e: "sent joke_page = []"
    by (simp add: joke_page_def)
  have v': "validate offline_browser (Some ?s) = Inr ?s"
    using truthy_fixtures(1) probe_offline by (rule validate_joke_settings)
  have w4: "speech offline_browser (Some ?s) joke_page
     = (Threw (Error (js ''The browser does not support HTTP request'')), joke_page)"
    using request_body_form [OF v', of joke_page, THEN conjunct2, THEN conjunct2, rule_format,
      OF body_joke, THEN conjunct2, THEN conjunct2, THEN conjunct2, THEN conjunct2,
      THEN conjunct2, THEN conjunct2, THEN conjunct2, THEN conjunct2, rule_format,
      OF can_construct_fixtures(3)] .
  have v'': "validate modern_browser (Some (joke_settings broken_joke))
               = Inr (joke_settings broken_joke)"
    using truthy_fixtures(2) probe_modern(1) by (rule validate_joke_settings)
  have nwf: "\<not> texts_well_formed (joke_settings broken_joke)"
    by (simp add: joke_settings_well_formed field_text_fixtures well_formed_fixtures)
  have w5: "speech modern_browser (Some (joke_settings broken_joke)) joke_page
     = (Threw (URIError (js ''URI malformed'')), joke_page)"
    using request_body_form [OF v'', of joke_page, THEN conjunct2, THEN conjunct1, rule_format,
      OF nwf, THEN conjunct2] .
  show ?thesis
    unfolding sp by (simp add: w1 w2 w3 e w4 w5)
qed

text \<open>
  C5 as stated fails for a text that ends in a lone surrogate: the settings the
  controller makes of it pass validation in a browser that plays mp3, and no body is
  built; \<^verbatim>\<open>encodeURIComponent\<close> throws, \<^verbatim>\<open>speech\<close> with it, and nothing is sent.
\<close>

theorem request_body_counterexample:
  "validate modern_browser (Some (joke_settings broken_joke)) = Inr (joke_settings broken_joke)
   \<and> buildRequest modern_browser (joke_settings broken_joke) = Inl (URIError (js ''URI malformed''))
   \<and> speech modern_browser (Some (joke_settings broken_joke)) joke_page
       = (Threw (URIError (js ''URI malformed'')), joke_page)
   \<and> sent joke_page = []"
proof -
  have v: "validate modern_browser (Some (joke_settings broken_joke)) = Inr (joke_settings broken_joke)"
    using truthy_fixtures(2) probe_modern(1) by (rule validate_joke_settings)
  have sp: "speech modern_browser (Some (joke_settings broken_joke)) joke_page
       = (Threw (URIError (js ''URI malformed'')), joke_page)"
    using v body_broken_joke by (rule speech_URIError)
  have e: "sent joke_page = []"
    by (simp add: joke_page_def)
  show ?thesis
    by (intro conjI v body_broken_joke sp e)
qed

section \<open>The rate\<close>

lemma decimal_value_decimal: "decimal_value (decimal \<bar>n\<bar>) = nat \<bar>n\<bar>"
  by (simp add: decimal_def nat_digits_value)

text \<open>
  C9, as amended. In a body that \<^verbatim>\<open>_buildRequest\<close> builds, a rate that is the number 0
  gives the field r the empty value, not the digit 0. A rate that is an integer n other
  than 0, of magnitude below 2 to the 53, gives it the decimal digits of n (which read
  back as the magnitude of n), a minus sign first when n is negative. For any other
  number but NaN the field is what \<^verbatim>\<open>encodeURIComponent\<close> returns for the string
  JavaScript prints for the number, which for 10 to the 21 and beyond is in exponent
  form. The settings the controller passes have the rate 0: a body is built from them
  when the joke is well formed, and its r is empty, whatever the browser; when the joke
  holds a lone surrogate no body is built, \<^verbatim>\<open>encodeURIComponent\<close> throwing a URIError.
\<close>

theorem rate_zero_serialized_empty:
  "(buildRequest env s = Inr body \<and> r s = JInt neg 0 \<longrightarrow> form_field body ''r'' = Some [])
   \<and> (buildRequest env s = Inr body \<and> r s = js_int n \<and> n \<noteq> 0 \<and> \<bar>n\<bar> \<le> 9007199254740991 \<longrightarrow>
        form_field body ''r'' = Some (decimal n) \<and> decimal_value (decimal \<bar>n\<bar>) = nat \<bar>n\<bar>)
   \<and> (buildRequest env s = Inr body \<and> r s = JNumber t \<and> t \<noteq> js ''NaN'' \<longrightarrow>
        map_option Inr (form_field body ''r'') = Some (encodeURIComponent t))
   \<and> r (joke_settings joke) = js_int 0
   \<and> (well_formed (field_text joke) \<longrightarrow>
        (\<exists>sent_body. buildRequest env (joke_settings joke) = Inr sent_body
           \<and> form_field sent_body ''r'' = Some []))
   \<and> (\<not> well_formed (field_text joke) \<longrightarrow>
        buildRequest env (joke_settings joke) = Inl (URIError (js ''URI malformed'')))"
proof (intro conjI impI)
  assume "buildRequest env s = Inr body \<and> r s = JInt neg 0"
  then show "form_field body ''r'' = Some []"
    using buildRequest_rate_field [of env s body] by (simp add: field_text_def encoded_Nil)
next
  assume a: "buildRequest env s = Inr body \<and> r s = js_int n \<and> n \<noteq> 0 \<and> \<bar>n\<bar> \<le> 9007199254740991"
  then have "field_text (r s) = js (decimal n)"
    by (simp add: field_text_def truthy_js_int ToString_js_int)
  with a show "form_field body ''r'' = Some (decimal n)"
    using buildRequest_rate_field [of env s body]
    by (simp add: encoded_js_unreserved decimal_unreserved)
next
  show "decimal_value (decimal \<bar>n\<bar>) = nat \<bar>n\<bar>"
    by (rule decimal_value_decimal)
next
  assume a: "buildRequest env s = Inr body \<and> r s = JNumber t \<and> t \<noteq> js ''NaN''"
  then have ft: "field_text (r s) = t"
    by (simp add: field_text_def)
  from a obtain codec where cc: "chosen_codec env s = Inr codec"
    using buildRequest_Inr_codec by blast
  from a have "texts_well_formed s"
    using buildRequest_well_formed(1) [OF cc] by blast
  then have "well_formed t"
    using ft by (simp add: texts_well_formed_def)
  then have "encodeURIComponent t = Inr (encoded t)"
    by (rule encoded_Inr)
  with a ft show "map_option Inr (form_field body ''r'') = Some (encodeURIComponent t)"
    using buildRequest_rate_field [of env s body] by simp
next
  show "r (joke_settings joke) = js_int 0"
    by (simp add: joke_settings_def js_int_def)
next
  have cc: "chosen_codec env (joke_settings joke) = Inr (JStr (js ''mp3''))"
    using joke_settings_explicit by (rule chosen_codec_explicit)
  {
    assume "well_formed (field_text joke)"
    then obtain sent_body where b: "buildRequest env (joke_settings joke) = Inr sent_body"
      by (simp add: buildRequest_eq [OF cc] joke_settings_well_formed field_text_fixtures
          well_formed_fixtures)
    then have "form_field sent_body ''r'' = Some (encoded (field_text (r (joke_settings joke))))"
      by (rule buildRequest_rate_field)
    then have "form_field sent_body ''r'' = Some []"
      by (simp add: joke_settings_def field_text_def encoded_Nil)
    with b show "\<exists>sent_body. buildRequest env (joke_settings joke) = Inr sent_body
           \<and> form_field sent_body ''r'' = Some []"
      by blast
  }
  {
    assume "\<not> well_formed (field_text joke)"
    then show "buildRequest env (joke_settings joke) = Inl (URIError (js ''URI malformed''))"
      by (simp add: buildRequest_eq [OF cc] joke_settings_well_formed)
  }
qed

theorem rate_zero_serialized_empty_witness:
  "buildRequest modern_browser (joke_settings a_joke) =
     Inr ''key=YOUR%20API&src=Knock%20knock%3F&hl=en-us&r=&c=mp3&f=44khz_16bit_stereo&ssml=&b64=true''
   \<and> form_field
        ''key=YOUR%20API&src=Knock%20knock%3F&hl=en-us&r=&c=mp3&f=44khz_16bit_stereo&ssml=&b64=true''
        ''r'' = Some []
   \<and> buildRequest modern_browser ((joke_settings a_joke)\<lparr>r := js_int (- 12)\<rparr>) =
     Inr ''key=YOUR%20API&src=Knock%20knock%3F&hl=en-us&r=-12&c=mp3&f=44khz_16bit_stereo&ssml=&b64=true''
   \<and> form_field
        ''key=YOUR%20API&src=Knock%20knock%3F&hl=en-us&r=-12&c=mp3&f=44khz_16bit_stereo&ssml=&b64=true''
        ''r'' = Some ''-12''
   \<and> buildRequest modern_browser ((joke_settings a_joke)\<lparr>r := JNumber (js ''1e+21'')\<rparr>) =
     Inr ''key=YOUR%20API&src=Knock%20knock%3F&hl=en-us&r=1e%2B21&c=mp3&f=44khz_16bit_stereo&ssml=&b64=true''
   \<and> form_field
        ''key=YOUR%20API&src=Knock%20knock%3F&hl=en-us&r=1e%2B21&c=mp3&f=44khz_16bit_stereo&ssml=&b64=true''
        ''r'' = Some ''1e%2B21''
   \<and> buildRequest modern_browser (joke_settings broken_joke) = Inl (URIError (js ''URI malformed''))"
proof -
  let ?b0 = "''key=YOUR%20API&src=Knock%20knock%3F&hl=en-us&r=&c=mp3&f=44khz_16bit_stereo&ssml=&b64=true''"
  let ?b1 = "''key=YOUR%20API&src=Knock%20knock%3F&hl=en-us&r=-12&c=mp3&f=44khz_16bit_stereo&ssml=&b64=true''"
  let ?s1 = "(joke_settings a_joke)\<lparr>r := js_int (- 12)\<rparr>"
  have b0: "buildRequest modern_browser (joke_settings a_joke) = Inr ?b0"
    by (rule body_joke)
  have b1: "buildRequest modern_browser ?s1 = Inr ?b1"
    by (simp only: js_int_fixtures body_minus_12)
  have r0: "r (joke_settings a_joke) = JInt False 0"
    by (simp add: joke_settings_def)
  have h0: "buildRequest modern_browser (joke_settings a_joke) = Inr ?b0
            \<and> r (joke_settings a_joke) = JInt False 0"
    using b0 r0 by (rule conjI)
  let ?b2 = "''key=YOUR%20API&src=Knock%20knock%3F&hl=en-us&r=1e%2B21&c=mp3&f=44khz_16bit_stereo&ssml=&b64=true''"
  let ?s2 = "(joke_settings a_joke)\<lparr>r := JNumber (js ''1e+21'')\<rparr>"
  have b2: "buildRequest modern_browser ?s2 = Inr ?b2"
    using body_ten_to_21 [of modern_browser] by (simp only: ten_to_21_def)
  have h2: "buildRequest modern_browser ?s2 = Inr ?b2 \<and> r ?s2 = JNumber (js ''1e+21'')
            \<and> js ''1e+21'' \<noteq> js ''NaN''"
    using b2 by (simp add: js_inject)
  have nwf: "\<not> well_formed (field_text broken_joke)"
    by (simp add: field_text_fixtures well_formed_fixtures)
  have h1: "buildRequest modern_browser ?s1 = Inr ?b1 \<and> r ?s1 = js_int (- 12)
            \<and> (- 12 :: int) \<noteq> 0 \<and> \<bar>- 12 :: int\<bar> \<le> 9007199254740991"
    using b1 by simp
  have "form_field ?b0 ''r'' = Some []"
    using rate_zero_serialized_empty
      [where env = modern_browser and s = "joke_settings a_joke" and body = ?b0 and neg = False,
        THEN conjunct1, rule_format, OF h0] .
  moreover have "form_field ?b1 ''r'' = Some (decimal (- 12))"
    using rate_zero_serialized_empty
      [where env = modern_browser and s = ?s1 and body = ?b1 and n = "- 12",
        THEN conjunct2, THEN conjunct1, rule_format, OF h1, THEN conjunct1] .
  moreover have "form_field ?b2 ''r'' = Some ''1e%2B21''"
  proof -
    have "map_option Inr (form_field ?b2 ''r'') = Some (encodeURIComponent (js ''1e+21''))"
      using rate_zero_serialized_empty
        [where env = modern_browser and s = ?s2 and body = ?b2 and t = "js ''1e+21''",
          THEN conjunct2, THEN conjunct2, THEN conjunct1, rule_format, OF h2] .
    moreover have "encodeURIComponent (js ''1e+21'') = Inr ''1e%2B21''"
      using encoded_Inr [OF well_formed_fixtures(5)] by (simp only: encoded_fixtures)
    ultimately show ?thesis
      by auto
  qed
  moreover have "buildRequest modern_browser (joke_settings broken_joke)
                   = Inl (URIError (js ''URI malformed''))"
    using rate_zero_serialized_empty
      [where env = modern_browser and joke = broken_joke,
        THEN conjunct2, THEN conjunct2, THEN conjunct2, THEN conjunct2, THEN conjunct2,
        rule_format, OF nwf] .
  ultimately show ?thesis
    using b0 b1 b2 by (simp only: decimal_fixtures simp_thms)
qed

text \<open>
  C9 as stated fails for the rate 10 to the 21, an integer other than 0: JavaScript
  prints it as 1e+21, and the field r of the body is the encoding of that string, not
  the decimal digits of the number.
\<close>

theorem rate_counterexample:
  "r ((joke_settings a_joke)\<lparr>r := ten_to_21\<rparr>) = JNumber (js ''1e+21'')
   \<and> buildRequest modern_browser ((joke_settings a_joke)\<lparr>r := ten_to_21\<rparr>) =
     Inr ''key=YOUR%20API&src=Knock%20knock%3F&hl=en-us&r=1e%2B21&c=mp3&f=44khz_16bit_stereo&ssml=&b64=true''
   \<and> form_field
        ''key=YOUR%20API&src=Knock%20knock%3F&hl=en-us&r=1e%2B21&c=mp3&f=44khz_16bit_stereo&ssml=&b64=true''
        ''r'' = Some ''1e%2B21''
   \<and> decimal 1000000000000000000000 = ''1000000000000000000000''"
proof -
  let ?s = "(joke_settings a_joke)\<lparr>r := ten_to_21\<rparr>"
  let ?b = "''key=YOUR%20API&src=Knock%20knock%3F&hl=en-us&r=1e%2B21&c=mp3&f=44khz_16bit_stereo&ssml=&b64=true''"
  have r21: "r ?s = JNumber (js ''1e+21'')"
    by (simp add: ten_to_21_def)
  have b: "buildRequest modern_browser ?s = Inr ?b"
    by (rule body_ten_to_21)
  then have "form_field ?b ''r'' = Some (encoded (field_text (r ?s)))"
    by (rule buildRequest_rate_field)
  then have ff: "form_field ?b ''r'' = Some ''1e%2B21''"
    by (simp add: field_text_fixtures encoded_fixtures)
  show ?thesis
    by (intro conjI r21 b ff decimal_fixtures(2))
qed

section \<open>The response of the speech service\<close>

text \<open>
  C6. When the response has status 200 and its body begins with ERROR, the handler
  leaves the page as it was: the source of the audio element is not assigned, play is
  not invoked, the joke text shown stays. At readyState 4 the handler throws an error
  carrying the body; at any earlier state it does nothing.
\<close>

theorem error_response_leaves_page:
  assumes "status xhr = 200" and "prefix (js ''ERROR'') (responseText xhr)"
  shows "snd (onreadystatechange env xhr w) = w
       \<and> audio (snd (onreadystatechange env xhr w)) = audio w
       \<and> joke_text (snd (onreadystatechange env xhr w)) = joke_text w
       \<and> fst (onreadystatechange env xhr w) =
           (if readyState xhr = 4 then Threw (Error (responseText xhr)) else Returned)"
proof -
  from assms(2) have "String_indexOf (responseText xhr) (js ''ERROR'') = 0"
    by (simp only: String_indexOf_0)
  with assms(1) have
    "onreadystatechange env xhr w =
       (if readyState xhr = 4 then Threw (Error (responseText xhr)) else Returned, w)"
    by (simp add: onreadystatechange_def)
  then show ?thesis
    by simp
qed

theorem error_response_leaves_page_witness:
  "onreadystatechange modern_browser
     \<lparr>readyState = 4, status = 200, responseText = js ''ERROR: The API key is not available!''\<rparr>
     joke_page
   = (Threw (Error (js ''ERROR: The API key is not available!'')), joke_page)"
proof -
  let ?x = "\<lparr>readyState = 4, status = 200,
             responseText = js ''ERROR: The API key is not available!''\<rparr>"
  have s: "status ?x = 200"
    by simp
  have p: "prefix (js ''ERROR'') (responseText ?x)"
    by (simp add: js_def)
  from error_response_leaves_page [OF s p, of modern_browser joke_page]
  have "snd (onreadystatechange modern_browser ?x joke_page) = joke_page"
    and "fst (onreadystatechange modern_browser ?x joke_page)
           = Threw (Error (js ''ERROR: The API key is not available!''))"
    by simp_all
  then show ?thesis
    by (simp add: prod_eq_iff)
qed

section \<open>The controller\<close>

text \<open>The controller's call of \<^verbatim>\<open>speech\<close> in three browsers.\<close>

lemma speech_joke_modern:
  "fst (speech modern_browser (Some (joke_settings a_joke)) joke_page) = Returned"
proof -
  have "validate modern_browser (Some (joke_settings a_joke)) = Inr (joke_settings a_joke)"
    using truthy_fixtures(1) probe_modern(1) by (rule validate_joke_settings)
  from speech_sends(1) [OF this body_joke can_construct_fixtures(1), of joke_page]
  show ?thesis
    by (elim exE) simp
qed

lemma speech_joke_offline:
  "fst (speech offline_browser (Some (joke_settings a_joke)) joke_page)
     = Threw (Error (js ''The browser does not support HTTP request''))"
proof -
  have "validate offline_browser (Some (joke_settings a_joke)) = Inr (joke_settings a_joke)"
    using truthy_fixtures(1) probe_offline by (rule validate_joke_settings)
  from speech_sends(2) [OF this body_joke can_construct_fixtures(3), of joke_page]
  show ?thesis
    by simp
qed

lemma speech_joke_mute:
  "fst (speech mute_browser (Some (joke_settings a_joke)) joke_page)
     = Threw (Error (js ''The browser does not support the audio codec mp3''))"
proof -
  have "validate mute_browser (Some (joke_settings a_joke)) =
          Inl (Error (js ''The browser does not support the audio codec '' @ js ''mp3''))"
    using rejected_codec [OF joke_settings_explicit probe_mute, of a_joke]
    by (simp add: joke_settings_required truthy_fixtures)
  then show ?thesis
    by (simp add: speech_invalid js_def)
qed

text \<open>
  C7, as amended. What comes with the response of the speech service (audio to play, a
  body beginning with ERROR, a status other than 200) is dealt with in the handler of
  the response, which never changes the button, the joke text shown or the alerts. What
  \<^verbatim>\<open>speech\<close> throws during the call (a validation error, an unsupported codec, no
  request object) is caught by the controller: it logs the error, shows the failure
  notice and clears the joke text, and nothing is sent. When \<^verbatim>\<open>speech\<close> returns, no
  notice is shown and the joke stays on the page.
\<close>

theorem speech_outcomes_and_page:
  "button_disabled (snd (onreadystatechange env xhr w)) = button_disabled w
   \<and> joke_text (snd (onreadystatechange env xhr w)) = joke_text w
   \<and> alerts (snd (onreadystatechange env xhr w)) = alerts w
   \<and> (joke_text w = Some old \<and> fst (speech env (Some (joke_settings joke)) w) = Returned \<longrightarrow>
         fst (handleJokeButtonClick env (JsonValue (Some joke)) w) = Returned
         \<and> alerts (snd (handleJokeButtonClick env (JsonValue (Some joke)) w)) = alerts w
         \<and> joke_text (snd (handleJokeButtonClick env (JsonValue (Some joke)) w))
             = Some (textContent_string joke))
   \<and> (joke_text w = Some old \<and> fst (speech env (Some (joke_settings joke)) w) = Threw e \<longrightarrow>
         alerts (snd (handleJokeButtonClick env (JsonValue (Some joke)) w))
           = alerts w @ [''Sorry, we couldn't fetch a joke. Please try again later.'']
         \<and> joke_text (snd (handleJokeButtonClick env (JsonValue (Some joke)) w)) = Some []
         \<and> console (snd (handleJokeButtonClick env (JsonValue (Some joke)) w))
             = console w @ [(''Error processing the joke:'', exn_message e)]
         \<and> sent (snd (handleJokeButtonClick env (JsonValue (Some joke)) w)) = sent w)"
  using cycle_speech_returns [of w old env joke] cycle_speech_throws [of w old env joke e]
  by (simp only: onreadystatechange_page simp_thms) blast

theorem speech_outcomes_and_page_witness:
  "alerts (snd (handleJokeButtonClick modern_browser (JsonValue (Some a_joke)) joke_page)) = []
   \<and> joke_text (snd (handleJokeButtonClick modern_browser (JsonValue (Some a_joke)) joke_page))
       = Some (js ''Knock knock?'')
   \<and> alerts (snd (handleJokeButtonClick offline_browser (JsonValue (Some a_joke)) joke_page))
       = [''Sorry, we couldn't fetch a joke. Please try again later.'']
   \<and> joke_text (snd (handleJokeButtonClick offline_browser (JsonValue (Some a_joke)) joke_page))
       = Some []"
proof -
  have j: "joke_text joke_page = Some (js ''An earlier joke'')" "alerts joke_page = []"
    by (simp_all add: joke_page_def)
  have t: "textContent_string a_joke = js ''Knock knock?''"
    by (simp add: textContent_string_def a_joke_def)
  from speech_outcomes_and_page
    [of modern_browser _ joke_page "js ''An earlier joke''" a_joke] j speech_joke_modern
  have "alerts (snd (handleJokeButtonClick modern_browser (JsonValue (Some a_joke)) joke_page)) = []"
    and "joke_text (snd (handleJokeButtonClick modern_browser (JsonValue (Some a_joke)) joke_page))
       = Some (textContent_string a_joke)"
    by simp_all
  moreover from speech_outcomes_and_page
    [of offline_browser _ joke_page "js ''An earlier joke''" a_joke
      "Error (js ''The browser does not support HTTP request'')"] j speech_joke_offline
  have "alerts (snd (handleJokeButtonClick offline_browser (JsonValue (Some a_joke)) joke_page))
       = [''Sorry, we couldn't fetch a joke. Please try again later.'']"
    and "joke_text (snd (handleJokeButtonClick offline_browser (JsonValue (Some a_joke)) joke_page))
       = Some []"
    by simp_all
  ultimately show ?thesis
    using t by simp
qed

text \<open>
  C7 as stated fails in a browser that cannot play mp3: the joke is fetched and shown,
  \<^verbatim>\<open>speech\<close> throws the error about the codec inside the try block, and the catch block
  shows the failure notice and clears the joke text.
\<close>

theorem speech_failure_counterexample:
  "fst (speech mute_browser (Some (joke_settings a_joke)) joke_page)
     = Threw (Error (js ''The browser does not support the audio codec mp3''))
   \<and> alerts joke_page = []
   \<and> alerts (snd (handleJokeButtonClick mute_browser (JsonValue (Some a_joke)) joke_page))
       = [''Sorry, we couldn't fetch a joke. Please try again later.'']
   \<and> joke_text (snd (handleJokeButtonClick mute_browser (JsonValue (Some a_joke)) joke_page))
       = Some []"
proof -
  have j: "joke_text joke_page = Some (js ''An earlier joke'')" "alerts joke_page = []"
    by (simp_all add: joke_page_def)
  from cycle_speech_throws(1,2) [OF j(1) speech_joke_mute] j(2) speech_joke_mute
  show ?thesis
    by simp
qed

text \<open>
  C8. However a run of the handler goes (the joke fetched and spoken, the fetch failed,
  \<^verbatim>\<open>speech\<close> threw, or an assignment to the text element threw, in the try block or in
  the catch block), the button ends enabled.
\<close>

theorem button_enabled_after_cycle:
  "button_disabled (snd (handleJokeButtonClick env reply w)) = False"
proof (cases "try_block env reply w")
  case (Pair res w1)
  show ?thesis
  proof (cases res)
    case Returned
    with Pair show ?thesis
      by (simp add: handleJokeButtonClick_def finally_block_def)
  next
    case (Threw e)
    with Pair show ?thesis
      by (cases "catch_block e w1") (simp add: handleJokeButtonClick_def finally_block_def)
  qed
qed

end
